theory Spec2Isabelle
  imports Complex_Main "HOL-Library.Char_ord" "HOL-Library.List_Lexorder"
begin

section \<open>Python values\<close>

text \<open>
  A Python \<open>str\<close> is a sequence of Unicode code points, so it is modelled as a list of
  natural numbers.  \<open>ustr\<close> embeds an ASCII literal.
\<close>

type_synonym pystr = "nat list"

definition ustr :: "string \<Rightarrow> pystr" where
  "ustr s = map of_char s"

text \<open>
  The values a spreadsheet cell, a header or a dataframe field can hold: a string, an
  integer, the float \<open>NaN\<close> of a missing cell, or \<open>None\<close>.  Other floats are not
  modelled.
\<close>

datatype pyval = CStr pystr | CInt int | CNaN | CNone

text \<open>Decimal digits of a natural number, as \<open>str(int)\<close> prints them.\<close>

fun digits_of :: "nat \<Rightarrow> pystr" where
  "digits_of n = (if n < 10 then [48 + n] else digits_of (n div 10) @ [48 + n mod 10])"

text \<open>\<open>str(value)\<close>.\<close>

fun py_str :: "pyval \<Rightarrow> pystr" where
  "py_str (CStr s) = s"
| "py_str (CInt i) = (if i < 0 then 45 # digits_of (nat (- i)) else digits_of (nat i))"
| "py_str CNaN = ustr ''nan''"
| "py_str CNone = ustr ''None''"

section \<open>SCD Type 2 maintenance of \<open>core.fact_offer\<close> (step 9 of \<open>run_pipeline\<close>)\<close>

text \<open>
  One row of \<open>core.fact_offer\<close>, with the columns the pipeline reads or writes.
  Identifiers of the dimension tables are integers; Python's truth test on them is
  \<open>id \<noteq> 0\<close> (and \<open>None\<close> is false).
\<close>

record fact_row =
  ies_id :: int
  territory_id :: int
  program_id :: int
  estado_original :: "pystr option"
  fact_estado_norm :: "pystr option"
  fact_natural_key :: pystr
  fact_row_hash :: pystr
  last_file_id :: pystr
  last_seen_at :: nat
  is_current :: bool

text \<open>
  One row of the dataframe \<open>df\<close> once the normalised fields, the geographic match and
  the keys have been added.  The two status fields, which the \<open>INSERT\<close> writes to the
  table, hold the value as Python has it (\<open>None\<close> and \<open>NaN\<close> apart); in the other
  fields \<open>None\<close> is a missing value.
\<close>

record offer_row =
  PROVINCIA :: "pystr option"
  CANTON :: "pystr option"
  ESTADO :: pyval
  nombre_norm :: "pystr option"
  carrera_norm :: "pystr option"
  campo_amplio_norm :: "pystr option"
  nivel_formacion_norm :: "pystr option"
  modalidad_norm :: "pystr option"
  provincia_norm :: "pystr option"
  canton_norm :: "pystr option"
  estado_norm :: pyval
  natural_key :: pystr
  row_hash :: pystr

text \<open>
  What the loop reads but never changes: the id of the file being ingested, the value of
  \<open>NOW()\<close>, and the three lookup dictionaries built from the dimension tables.
\<close>

record scd_env =
  env_file_id :: pystr
  env_now :: nat
  ies_lookup :: "pystr option \<rightharpoonup> int"
  terr_lookup :: "(pystr option \<times> pystr option) \<rightharpoonup> int"
  prog_lookup :: "(pystr option \<times> pystr option \<times> pystr option \<times> pystr option) \<rightharpoonup> int"

record scd_counts =
  inserts_count :: nat
  updates_count :: nat
  unchanged_count :: nat
  skipped_missing_dims :: nat

definition zero_counts :: scd_counts where
  "zero_counts = \<lparr>inserts_count = 0, updates_count = 0, unchanged_count = 0,
     skipped_missing_dims = 0\<rparr>"

text \<open>Python's truth value of the result of \<open>dict.get\<close> on an id lookup.\<close>

fun truthy_id :: "int option \<Rightarrow> bool" where
  "truthy_id None = False"
| "truthy_id (Some i) = (i \<noteq> 0)"

text \<open>
  \<open>SELECT natural_key, row_hash FROM core.fact_offer WHERE is_current = TRUE\<close>, then the
  dict comprehension \<open>{r.natural_key: r.row_hash for r in existing_rows}\<close>: a later row
  overwrites an earlier one with the same key.
\<close>

definition select_current :: "fact_row list \<Rightarrow> (pystr \<times> pystr) list" where
  "select_current tbl = map (\<lambda>r. (fact_natural_key r, fact_row_hash r)) (filter is_current tbl)"

definition dict_of :: "('k \<times> 'v) list \<Rightarrow> ('k \<rightharpoonup> 'v)" where
  "dict_of kvs = fold (\<lambda>(k, v) m. m(k \<mapsto> v)) kvs Map.empty"

definition existing_map_of :: "fact_row list \<Rightarrow> (pystr \<rightharpoonup> pystr)" where
  "existing_map_of tbl = dict_of (select_current tbl)"

text \<open>\<open>df.drop_duplicates(subset=['natural_key'], keep='last')\<close>.\<close>

fun drop_duplicates_last :: "offer_row list \<Rightarrow> offer_row list" where
  "drop_duplicates_last [] = []"
| "drop_duplicates_last (r # rs) =
     (if natural_key r \<in> set (map natural_key rs) then drop_duplicates_last rs
      else r # drop_duplicates_last rs)"

text \<open>
  \<open>UPDATE core.fact_offer SET is_current = FALSE, last_seen_at = NOW(), last_file_id = :fid
  WHERE natural_key = :nk AND is_current = TRUE\<close>
\<close>

definition expire_current :: "scd_env \<Rightarrow> pystr \<Rightarrow> fact_row list \<Rightarrow> fact_row list" where
  "expire_current env nk tbl =
     map (\<lambda>r. if fact_natural_key r = nk \<and> is_current r
               then r\<lparr>is_current := False, last_seen_at := env_now env,
                      last_file_id := env_file_id env\<rparr>
               else r) tbl"

text \<open>
  \<open>UPDATE core.fact_offer SET last_seen_at = NOW(), last_file_id = :fid
  WHERE natural_key = :nk AND is_current = TRUE\<close>
\<close>

definition touch_current :: "scd_env \<Rightarrow> pystr \<Rightarrow> fact_row list \<Rightarrow> fact_row list" where
  "touch_current env nk tbl =
     map (\<lambda>r. if fact_natural_key r = nk \<and> is_current r
               then r\<lparr>last_seen_at := env_now env, last_file_id := env_file_id env\<rparr>
               else r) tbl"

text \<open>
  What a bound parameter leaves in a text column: \<open>None\<close> is \<open>NULL\<close>, a string is
  itself, and a number is its text, which for the float \<open>NaN\<close> is \<open>NaN\<close>.  The
  schema is not part of the sources; \<open>estado_original\<close> and \<open>estado_norm\<close> are taken
  to be nullable text columns.
\<close>

fun sql_text :: "pyval \<Rightarrow> pystr option" where
  "sql_text (CStr s) = Some s"
| "sql_text (CInt i) = Some (py_str (CInt i))"
| "sql_text CNaN = Some (ustr ''NaN'')"
| "sql_text CNone = None"

text \<open>
  \<open>INSERT INTO core.fact_offer (..., is_current) VALUES (..., TRUE)\<close>.  The statement
  does not name \<open>last_seen_at\<close>; its column default is not part of the sources and is
  taken to be the statement time.
\<close>

definition insert_fact ::
  "scd_env \<Rightarrow> int \<Rightarrow> int \<Rightarrow> int \<Rightarrow> offer_row \<Rightarrow> fact_row list \<Rightarrow> fact_row list" where
  "insert_fact env i t p row tbl =
     tbl @ [\<lparr>ies_id = i, territory_id = t, program_id = p,
             estado_original = sql_text (ESTADO row),
             fact_estado_norm = sql_text (estado_norm row),
             fact_natural_key = natural_key row, fact_row_hash = row_hash row,
             last_file_id = env_file_id env, last_seen_at = env_now env,
             is_current = True\<rparr>]"

text \<open>The body of \<open>for _, row in df_fact.iterrows()\<close>.\<close>

definition scd_step ::
  "scd_env \<Rightarrow> (pystr \<rightharpoonup> pystr) \<Rightarrow> offer_row \<Rightarrow> fact_row list \<times> scd_counts
     \<Rightarrow> fact_row list \<times> scd_counts" where
  "scd_step env existing_map row st =
     (let tbl = fst st; c = snd st;
          nk = natural_key row; rh = row_hash row;
          ies = ies_lookup env (nombre_norm row);
          terr = terr_lookup env (provincia_norm row, canton_norm row);
          prog = prog_lookup env (carrera_norm row, campo_amplio_norm row,
                                  nivel_formacion_norm row, modalidad_norm row)
      in if \<not> (truthy_id ies \<and> truthy_id terr \<and> truthy_id prog)
         then (tbl, c\<lparr>skipped_missing_dims := skipped_missing_dims c + 1\<rparr>)
         else (case existing_map nk of
                 Some old \<Rightarrow>
                   if old \<noteq> rh
                   then (insert_fact env (the ies) (the terr) (the prog) row
                           (expire_current env nk tbl),
                         c\<lparr>updates_count := updates_count c + 1\<rparr>)
                   else (touch_current env nk tbl,
                         c\<lparr>unchanged_count := unchanged_count c + 1\<rparr>)
               | None \<Rightarrow>
                   (insert_fact env (the ies) (the terr) (the prog) row tbl,
                    c\<lparr>inserts_count := inserts_count c + 1\<rparr>)))"

text \<open>
  The whole step: \<open>existing_map\<close> is read once, before the loop, and the loop runs over
  the batch with duplicates of a natural key collapsed to the last occurrence.
\<close>

definition scd_loop ::
  "scd_env \<Rightarrow> (pystr \<rightharpoonup> pystr) \<Rightarrow> offer_row list \<Rightarrow> fact_row list \<times> scd_counts
     \<Rightarrow> fact_row list \<times> scd_counts" where
  "scd_loop env existing_map rows st = fold (scd_step env existing_map) rows st"

definition scd_fact :: "scd_env \<Rightarrow> fact_row list \<Rightarrow> offer_row list \<Rightarrow> fact_row list \<times> scd_counts" where
  "scd_fact env tbl df =
     scd_loop env (existing_map_of tbl) (drop_duplicates_last df) (tbl, zero_counts)"

text \<open>The natural keys of the current rows, in table order.\<close>

definition current_keys :: "fact_row list \<Rightarrow> pystr list" where
  "current_keys tbl = map fact_natural_key (filter is_current tbl)"

text \<open>At most one row with \<open>is_current = TRUE\<close> per natural key.\<close>

definition one_current_per_key :: "fact_row list \<Rightarrow> bool" where
  "one_current_per_key tbl = distinct (current_keys tbl)"

text \<open>The sum of the four counters reported by the step.\<close>

definition counts_total :: "scd_counts \<Rightarrow> nat" where
  "counts_total c =
     inserts_count c + updates_count c + unchanged_count c + skipped_missing_dims c"

text \<open>
  A small warehouse and batch for the closed instances below: one current and one expired
  row for key \<open>k1\<close>; the batch carries \<open>k1\<close> twice (the last occurrence with a new
  hash), a new key \<open>k2\<close>, and a key \<open>k3\<close> whose institution is not in the lookup.
\<close>

definition ex_env :: scd_env where
  "ex_env = \<lparr>env_file_id = ustr ''f2'', env_now = 7,
     ies_lookup = [Some (ustr ''uni a'') \<mapsto> 1],
     terr_lookup = [(Some (ustr ''pichincha''), Some (ustr ''quito'')) \<mapsto> 4],
     prog_lookup = [(Some (ustr ''sistemas''), Some (ustr ''tic''), Some (ustr ''grado''),
                     Some (ustr ''presencial'')) \<mapsto> 9]\<rparr>"

definition ex_fact :: "pystr \<Rightarrow> pystr \<Rightarrow> bool \<Rightarrow> fact_row" where
  "ex_fact nk rh cur = \<lparr>ies_id = 1, territory_id = 4, program_id = 9,
     estado_original = Some (ustr ''ACTIVA''), fact_estado_norm = Some (ustr ''activa''),
     fact_natural_key = nk, fact_row_hash = rh, last_file_id = ustr ''f1'',
     last_seen_at = 3, is_current = cur\<rparr>"

definition ex_offer :: "pystr \<Rightarrow> pystr \<Rightarrow> pystr \<Rightarrow> offer_row" where
  "ex_offer ies nk rh = \<lparr>PROVINCIA = Some (ustr ''Pichincha''),
     CANTON = Some (ustr ''Quito''), ESTADO = CStr (ustr ''CERRADA''), nombre_norm = Some ies,
     carrera_norm = Some (ustr ''sistemas''), campo_amplio_norm = Some (ustr ''tic''),
     nivel_formacion_norm = Some (ustr ''grado''),
     modalidad_norm = Some (ustr ''presencial''),
     provincia_norm = Some (ustr ''pichincha''), canton_norm = Some (ustr ''quito''),
     estado_norm = CStr (ustr ''cerrada''), natural_key = nk, row_hash = rh\<rparr>"

definition ex_table :: "fact_row list" where
  "ex_table = [ex_fact (ustr ''k1'') (ustr ''h0'') False, ex_fact (ustr ''k1'') (ustr ''h1'') True]"

definition ex_batch :: "offer_row list" where
  "ex_batch = [ex_offer (ustr ''uni a'') (ustr ''k1'') (ustr ''h1''),
               ex_offer (ustr ''uni a'') (ustr ''k2'') (ustr ''h5''),
               ex_offer (ustr ''uni z'') (ustr ''k3'') (ustr ''h6''),
               ex_offer (ustr ''uni a'') (ustr ''k1'') (ustr ''h2'')]"

text \<open>
  The loop invariant: the current keys are distinct, and for every key still to be
  processed the dictionary read before the loop still tells whether the table holds a
  current row for it.
\<close>

definition scd_ok :: "(pystr \<rightharpoonup> pystr) \<Rightarrow> pystr set \<Rightarrow> fact_row list \<Rightarrow> bool" where
  "scd_ok em pending tbl \<longleftrightarrow>
     distinct (current_keys tbl) \<and>
     (\<forall>k \<in> pending. k \<in> dom em \<longleftrightarrow> k \<in> set (current_keys tbl))"

section \<open>Text normalisation (\<open>GeoMatcher.normalize_text\<close>, \<open>normalize_column_name\<close>)\<close>

text \<open>\<open>text.encode('ASCII', 'ignore').decode('utf-8')\<close>: code points from 128 on are dropped.\<close>

definition encode_ascii_ignore :: "pystr \<Rightarrow> pystr" where
  "encode_ascii_ignore s = filter (\<lambda>c. c < 128) s"

text \<open>
  The code points \<open>str.isspace\<close> accepts, which are the ones \<open>str.strip()\<close> and
  \<open>str.split()\<close> treat as whitespace.
\<close>

definition is_space :: "nat \<Rightarrow> bool" where
  "is_space c \<longleftrightarrow>
     (9 \<le> c \<and> c \<le> 13) \<or> (28 \<le> c \<and> c \<le> 32) \<or> c = 133 \<or> c = 160 \<or> c = 5760 \<or>
     (8192 \<le> c \<and> c \<le> 8202) \<or> c = 8232 \<or> c = 8233 \<or> c = 8239 \<or> c = 8287 \<or> c = 12288"

text \<open>
  \<open>str.lower()\<close> and \<open>str.upper()\<close> on the ASCII letters.  Both are called after
  \<open>encode_ascii_ignore\<close>, so no other letter reaches them.
\<close>

definition lower_char :: "nat \<Rightarrow> nat" where
  "lower_char c = (if 65 \<le> c \<and> c \<le> 90 then c + 32 else c)"

definition upper_char :: "nat \<Rightarrow> nat" where
  "upper_char c = (if 97 \<le> c \<and> c \<le> 122 then c - 32 else c)"

definition py_lower :: "pystr \<Rightarrow> pystr" where
  "py_lower s = map lower_char s"

definition py_upper :: "pystr \<Rightarrow> pystr" where
  "py_upper s = map upper_char s"

text \<open>\<open>str.strip(chars)\<close> for a class of code points, and \<open>str.strip()\<close>.\<close>

definition strip_where :: "(nat \<Rightarrow> bool) \<Rightarrow> pystr \<Rightarrow> pystr" where
  "strip_where P s = rev (dropWhile P (rev (dropWhile P s)))"

definition py_strip :: "pystr \<Rightarrow> pystr" where
  "py_strip s = strip_where is_space s"

text \<open>
  \<open>str.split()\<close> with no argument: the maximal runs of non-whitespace, in order.  The
  first argument is the word read so far.
\<close>

fun split_acc :: "pystr \<Rightarrow> pystr \<Rightarrow> pystr list" where
  "split_acc cur [] = (if cur = [] then [] else [cur])"
| "split_acc cur (c # cs) =
     (if is_space c then (if cur = [] then split_acc [] cs else cur # split_acc [] cs)
      else split_acc (cur @ [c]) cs)"

definition py_split :: "pystr \<Rightarrow> pystr list" where
  "py_split s = split_acc [] s"

text \<open>\<open>sep.join(words)\<close>.\<close>

fun py_join :: "pystr \<Rightarrow> pystr list \<Rightarrow> pystr" where
  "py_join sep [] = []"
| "py_join sep [w] = w"
| "py_join sep (w # ws) = w @ sep @ py_join sep ws"

text \<open>
  \<open>GeoMatcher.normalize_text\<close>.  \<open>unicodedata.normalize('NFKD', _)\<close> belongs to the
  Python library, so it is the parameter \<open>nfkd\<close>.
\<close>

fun normalize_text :: "(pystr \<Rightarrow> pystr) \<Rightarrow> pyval \<Rightarrow> pystr" where
  "normalize_text nfkd (CStr s) =
     (let t = encode_ascii_ignore (nfkd s);
          t = py_strip (py_lower t)
      in py_join [32] (py_split t))"
| "normalize_text nfkd v = []"

text \<open>
  \<open>re.sub(r'[C]+', rep, text)\<close> for a character class \<open>C\<close>: every maximal run of
  code points of the class is replaced by \<open>rep\<close>.  The flag says whether the previous
  code point belonged to a run.
\<close>

fun sub_runs :: "(nat \<Rightarrow> bool) \<Rightarrow> pystr \<Rightarrow> bool \<Rightarrow> pystr \<Rightarrow> pystr" where
  "sub_runs P rep in_run [] = []"
| "sub_runs P rep in_run (c # cs) =
     (if P c then (if in_run then sub_runs P rep True cs else rep @ sub_runs P rep True cs)
      else c # sub_runs P rep False cs)"

definition is_upper_alnum :: "nat \<Rightarrow> bool" where
  "is_upper_alnum c \<longleftrightarrow> (65 \<le> c \<and> c \<le> 90) \<or> (48 \<le> c \<and> c \<le> 57)"

text \<open>\<open>normalize_column_name\<close>; 95 is the underscore.\<close>

definition normalize_column_name :: "(pystr \<Rightarrow> pystr) \<Rightarrow> pyval \<Rightarrow> pystr" where
  "normalize_column_name nfkd col_name =
     (let t = nfkd (py_str col_name);
          t = encode_ascii_ignore t;
          t = py_upper (py_strip t);
          t = sub_runs (\<lambda>c. \<not> is_upper_alnum c) [95] False t;
          t = strip_where (\<lambda>c. c = 95) (sub_runs (\<lambda>c. c = 95) [95] False t)
      in t)"

text \<open>
  A decomposition table for a few Latin letters with diacritics and the no-break space,
  applied code point by code point; it agrees with NFKD on the strings used in the closed
  instances below and leaves every ASCII string as it is.
\<close>

definition decomp_latin :: "nat \<Rightarrow> pystr" where
  "decomp_latin c =
     (if c = 193 then [65, 769] else if c = 201 then [69, 769]
      else if c = 205 then [73, 769] else if c = 211 then [79, 769]
      else if c = 218 then [85, 769] else if c = 209 then [78, 771]
      else if c = 225 then [97, 769] else if c = 233 then [101, 769]
      else if c = 237 then [105, 769] else if c = 243 then [111, 769]
      else if c = 250 then [117, 769] else if c = 241 then [110, 771]
      else if c = 160 then [32] else [c])"

definition nfkd_latin :: "pystr \<Rightarrow> pystr" where
  "nfkd_latin s = concat (map decomp_latin s)"

text \<open>What \<open>str.split()\<close> returns: non-empty words without whitespace.\<close>

definition words_ok :: "pystr list \<Rightarrow> bool" where
  "words_ok ws \<longleftrightarrow> (\<forall>w \<in> set ws. w \<noteq> [] \<and> (\<forall>c \<in> set w. \<not> is_space c))"

text \<open>An ASCII code point that \<open>lower_char\<close> leaves alone.\<close>

definition ascii_lower :: "nat \<Rightarrow> bool" where
  "ascii_lower c \<longleftrightarrow> c < 128 \<and> lower_char c = c"

text \<open>
  The shape of every result of \<open>normalize_text\<close>: lower-case ASCII words joined by
  single spaces.
\<close>

definition normal_form :: "pystr \<Rightarrow> bool" where
  "normal_form t \<longleftrightarrow>
     (\<exists>ws. words_ok ws \<and> t = py_join [32] ws \<and> (\<forall>w \<in> set ws. \<forall>c \<in> set w. ascii_lower c))"

text \<open>A province name with stray whitespace, capitals and an accented letter.\<close>

definition ex_text :: pyval where
  "ex_text = CStr (ustr ''  Santo   Domingo '' @ [9] @ ustr ''TS'' @ [193] @ ustr ''CHILAS '')"

section \<open>The tabular loader (\<open>normalize_columns\<close>, \<open>detect_header_row\<close>, \<open>load_excel\<close>)\<close>

text \<open>A dataframe: its column labels and its rows of cells.\<close>

record 'l dataframe =
  df_columns :: "'l list"
  df_rows :: "pyval list list"

text \<open>
  The two failures of the loader.  Both are \<open>ValueError\<close> in the source, told apart by
  their messages \<open>Duplicate columns after normalization: {dupes}\<close> and
  \<open>Missing columns: {missing_cols}\<close>; \<open>ReadError\<close> stands for whatever
  \<open>pd.read_excel\<close> itself raises.
\<close>

datatype load_error =
    DuplicateColumns "(pystr \<times> pyval list) list"
  | MissingColumns "pystr list"
  | ReadError

text \<open>
  Whether two labels are the same dictionary key.  Strings and integers are the same key
  when they are equal.  A \<open>NaN\<close> label is the same key as no label, itself included:
  \<open>nan == nan\<close> is false, and every label read from a float index is a float object of
  its own.
\<close>

definition key_eq :: "pyval \<Rightarrow> pyval \<Rightarrow> bool" where
  "key_eq a b \<longleftrightarrow> a = b \<and> a \<noteq> CNaN"

text \<open>
  The keys of a dictionary built by inserting the elements of a list in order: each key
  once, at the place of its first insertion.
\<close>

fun dict_keys :: "pyval list \<Rightarrow> pyval list" where
  "dict_keys [] = []"
| "dict_keys (x # xs) = x # dict_keys (filter (\<lambda>y. \<not> key_eq y x) xs)"

text \<open>\<open>collisions.setdefault(norm, []).append(original)\<close> on an insertion-ordered dictionary.\<close>

fun setdefault_append :: "'k \<Rightarrow> 'v \<Rightarrow> ('k \<times> 'v list) list \<Rightarrow> ('k \<times> 'v list) list" where
  "setdefault_append k v [] = [(k, [v])]"
| "setdefault_append k v ((k', vs) # rest) =
     (if k' = k then (k', vs @ [v]) # rest else (k', vs) # setdefault_append k v rest)"

text \<open>\<open>normalized.items()\<close> for \<open>normalized = {c: normalize_column_name(c) for c in df.columns}\<close>.\<close>

definition normalized_items :: "(pystr \<Rightarrow> pystr) \<Rightarrow> pyval list \<Rightarrow> (pyval \<times> pystr) list" where
  "normalized_items nfkd cols = map (\<lambda>c. (c, normalize_column_name nfkd c)) (dict_keys cols)"

definition collisions_of :: "(pyval \<times> pystr) list \<Rightarrow> (pystr \<times> pyval list) list" where
  "collisions_of items = fold (\<lambda>(original, norm) acc. setdefault_append norm original acc) items []"

definition dupes_of :: "(pyval \<times> pystr) list \<Rightarrow> (pystr \<times> pyval list) list" where
  "dupes_of items = filter (\<lambda>(k, v). length v > 1) (collisions_of items)"

text \<open>
  \<open>normalize_columns\<close>.  \<open>df.rename(columns=normalized)\<close> replaces every label by its
  normalised name and leaves the rows alone.
\<close>

definition normalize_columns ::
  "(pystr \<Rightarrow> pystr) \<Rightarrow> pyval dataframe \<Rightarrow> load_error + pystr dataframe" where
  "normalize_columns nfkd df =
     (let dupes = dupes_of (normalized_items nfkd (df_columns df))
      in if dupes \<noteq> [] then Inl (DuplicateColumns dupes)
         else Inr \<lparr>df_columns = map (normalize_column_name nfkd) (df_columns df),
                   df_rows = df_rows df\<rparr>)"

definition REQUIRED_COLUMNS :: "pystr list" where
  "REQUIRED_COLUMNS = map ustr
     [''NOMBRE_IES'', ''TIPO_IES'', ''TIPO_FINANCIAMIENTO'', ''NOMBRE_CARRERA'',
      ''CAMPO_AMPLIO'', ''NIVEL_FORMACION'', ''MODALIDAD'', ''PROVINCIA'', ''CANTON'',
      ''ESTADO'']"

text \<open>\<open>all(col in normalized for col in REQUIRED_COLUMNS)\<close> for one row of cells.\<close>

definition covers_required :: "(pystr \<Rightarrow> pystr) \<Rightarrow> pyval list \<Rightarrow> bool" where
  "covers_required nfkd row_values =
     (let normalized = map (normalize_column_name nfkd) row_values
      in list_all (\<lambda>col. col \<in> set normalized) REQUIRED_COLUMNS)"

text \<open>The loop of \<open>detect_header_row\<close> from index \<open>idx\<close> on, over the rows still to scan.\<close>

fun scan_rows :: "(pystr \<Rightarrow> pystr) \<Rightarrow> nat \<Rightarrow> pyval list list \<Rightarrow> nat option" where
  "scan_rows nfkd idx [] = None"
| "scan_rows nfkd idx (r # rs) =
     (if covers_required nfkd r then Some idx else scan_rows nfkd (Suc idx) rs)"

definition detect_header_row :: "(pystr \<Rightarrow> pystr) \<Rightarrow> 'l dataframe \<Rightarrow> nat \<Rightarrow> nat option" where
  "detect_header_row nfkd df_raw max_scan =
     (let scan_limit = min max_scan (length (df_rows df_raw))
      in scan_rows nfkd 0 (take scan_limit (df_rows df_raw)))"

text \<open>\<open>[c for c in REQUIRED_COLUMNS if c not in df.columns]\<close>\<close>

definition missing_cols :: "pystr dataframe \<Rightarrow> pystr list" where
  "missing_cols df = filter (\<lambda>c. c \<notin> set (df_columns df)) REQUIRED_COLUMNS"

text \<open>
  \<open>load_excel\<close>.  \<open>pd.read_excel(file_path, header=h)\<close> for the file at hand is the
  parameter \<open>read_excel\<close>, a function of the \<open>header\<close> argument (\<open>Some 0\<close> is the
  default, \<open>None\<close> is \<open>header=None\<close>).  The result comes with the list of the
  \<open>header\<close> arguments of the reads made, in order.
\<close>

definition load_excel ::
  "(pystr \<Rightarrow> pystr) \<Rightarrow> (nat option \<Rightarrow> load_error + pyval dataframe)
     \<Rightarrow> nat option list \<times> (load_error + pystr dataframe)" where
  "load_excel nfkd read_excel =
     (case read_excel (Some 0) of
        Inl e \<Rightarrow> ([Some 0], Inl e)
      | Inr df0 \<Rightarrow>
         (case normalize_columns nfkd df0 of
            Inl e \<Rightarrow> ([Some 0], Inl e)
          | Inr df \<Rightarrow>
             if missing_cols df = [] then ([Some 0], Inr df)
             else
              (case read_excel None of
                 Inl e \<Rightarrow> ([Some 0, None], Inl e)
               | Inr df_raw \<Rightarrow>
                  (case detect_header_row nfkd df_raw 50 of
                     None \<Rightarrow> ([Some 0, None], Inl (MissingColumns (missing_cols df)))
                   | Some header_row \<Rightarrow>
                      (case read_excel (Some header_row) of
                         Inl e \<Rightarrow> ([Some 0, None, Some header_row], Inl e)
                       | Inr df1 \<Rightarrow>
                          (case normalize_columns nfkd df1 of
                             Inl e \<Rightarrow> ([Some 0, None, Some header_row], Inl e)
                           | Inr df2 \<Rightarrow>
                              if missing_cols df2 \<noteq> []
                              then ([Some 0, None, Some header_row],
                                    Inl (MissingColumns (missing_cols df2)))
                              else ([Some 0, None, Some header_row], Inr df2)))))))"

text \<open>Example headers: two spellings that normalise to \<open>NOMBRE_IES\<close>.\<close>

definition ex_dup_df :: "pyval dataframe" where
  "ex_dup_df = \<lparr>df_columns = [CStr (ustr ''NOMBRE IES''), CStr (ustr ''NOMBRE_IES'')],
                 df_rows = []\<rparr>"

text \<open>
  Three spreadsheets for the closed instances.  \<open>ex_read_dup\<close>: the first row holds the
  two colliding spellings above.  \<open>ex_read_plain\<close>: a sheet with headers \<open>A\<close>, \<open>B\<close> and
  one data row, with no header row anywhere.  \<open>ex_read_shifted\<close>: a title row, then the
  ten required headers on the second row, then one data row.
\<close>

definition ex_dup_raw :: "pyval dataframe" where
  "ex_dup_raw = \<lparr>df_columns = [CInt 0, CInt 1],
                  df_rows = [[CStr (ustr ''NOMBRE IES''), CStr (ustr ''NOMBRE_IES'')]]\<rparr>"

fun ex_read_dup :: "nat option \<Rightarrow> load_error + pyval dataframe" where
  "ex_read_dup None = Inr ex_dup_raw"
| "ex_read_dup (Some 0) = Inr ex_dup_df"
| "ex_read_dup (Some (Suc n)) = Inr \<lparr>df_columns = [], df_rows = []\<rparr>"

definition ex_plain_raw :: "pyval dataframe" where
  "ex_plain_raw = \<lparr>df_columns = [CInt 0, CInt 1],
     df_rows = [[CStr (ustr ''A''), CStr (ustr ''B'')], [CInt 1, CNaN]]\<rparr>"

definition ex_plain_df0 :: "pyval dataframe" where
  "ex_plain_df0 = \<lparr>df_columns = [CStr (ustr ''A''), CStr (ustr ''B'')],
     df_rows = [[CInt 1, CNaN]]\<rparr>"

definition ex_plain_df :: "pystr dataframe" where
  "ex_plain_df = \<lparr>df_columns = [ustr ''A'', ustr ''B''],
     df_rows = [[CInt 1, CNaN]]\<rparr>"

fun ex_read_plain :: "nat option \<Rightarrow> load_error + pyval dataframe" where
  "ex_read_plain None = Inr ex_plain_raw"
| "ex_read_plain (Some 0) = Inr ex_plain_df0"
| "ex_read_plain (Some (Suc n)) = Inr \<lparr>df_columns = [], df_rows = []\<rparr>"

definition ex_headers :: "pyval list" where
  "ex_headers = map (\<lambda>s. CStr (ustr s))
     [''Nombre IES'', ''Tipo IES'', ''Tipo Financiamiento'', ''Nombre Carrera'',
      ''Campo Amplio'', ''Nivel Formacion'', ''Modalidad'', ''Provincia'', ''Canton'',
      ''Estado'']"

definition ex_title_row :: "pyval list" where
  "ex_title_row = CStr (ustr ''Oferta academica 2024'') # replicate 9 (CNaN)"

definition ex_data_row :: "pyval list" where
  "ex_data_row = replicate 10 (CStr (ustr ''x''))"

fun ex_read_shifted :: "nat option \<Rightarrow> load_error + pyval dataframe" where
  "ex_read_shifted None =
     Inr \<lparr>df_columns = map (\<lambda>i. CInt (int i)) [0..<10],
          df_rows = [ex_title_row, ex_headers, ex_data_row]\<rparr>"
| "ex_read_shifted (Some 0) =
     Inr \<lparr>df_columns = CStr (ustr ''Oferta academica 2024'') #
            map (\<lambda>i. CStr (ustr ''Unnamed: '' @ digits_of i)) [1..<10],
          df_rows = [ex_headers, ex_data_row]\<rparr>"
| "ex_read_shifted (Some (Suc n)) =
     (if n = 0 then Inr \<lparr>df_columns = ex_headers, df_rows = [ex_data_row]\<rparr>
      else Inr \<lparr>df_columns = [], df_rows = []\<rparr>)"

text \<open>The list stored under a key of an insertion-ordered dictionary of lists.\<close>

definition values_at :: "'k \<Rightarrow> ('k \<times> 'v list) list \<Rightarrow> 'v list" where
  "values_at k acc = (case map_of acc k of None \<Rightarrow> [] | Some vs \<Rightarrow> vs)"

section \<open>Artifact upload (\<open>supabase_storage.upload_artifacts\<close>)\<close>

text \<open>
  Everything outside the module that \<open>upload_artifacts\<close> depends on: whether the
  \<open>supabase\<close> package could be imported, the process environment, how the client
  library and the file system answer, and what \<open>pathlib\<close> computes.
\<close>

record storage_world =
  sw_installed :: bool
  sw_env :: "pystr \<rightharpoonup> pystr"
  sw_create_client_ok :: bool
  sw_list_buckets :: "pystr list option"
  sw_create_bucket_ok :: bool
  sw_exists :: "pystr \<Rightarrow> bool"
  sw_read_ok :: "pystr \<Rightarrow> bool"
  sw_upload_ok :: "pystr \<Rightarrow> bool"
  sw_path_name :: "pystr \<Rightarrow> pystr"
  sw_path_join :: "pystr \<Rightarrow> pystr \<Rightarrow> pystr"

text \<open>The calls made on the client library, in order.\<close>

datatype storage_op =
    OpCreateClient pystr pystr
  | OpListBuckets
  | OpCreateBucket pystr bool
  | OpUpload pystr pystr pystr

datatype storage_exc = StorageException

record upload_info =
  info_path :: pystr
  info_url :: "pystr option"

record upload_result =
  up_status :: pystr
  up_paths :: "(pystr \<times> upload_info) list"

text \<open>Python's truth value of an optional string: \<open>None\<close> and \<open>''\<close> are false.\<close>

fun truthy_str :: "pystr option \<Rightarrow> bool" where
  "truthy_str None = False"
| "truthy_str (Some s) = (s \<noteq> [])"

text \<open>\<open>os.getenv(name, default)\<close>\<close>

definition getenv_default :: "storage_world \<Rightarrow> pystr \<Rightarrow> pystr \<Rightarrow> pystr" where
  "getenv_default w name dflt = (case sw_env w name of None \<Rightarrow> dflt | Some v \<Rightarrow> v)"

text \<open>\<open>_bool_env\<close>; the three accepted spellings are ASCII, so \<open>py_lower\<close> decides it.\<close>

definition bool_env :: "pystr option \<Rightarrow> bool" where
  "bool_env v =
     (case v of
        None \<Rightarrow> False
      | Some s \<Rightarrow> s \<noteq> [] \<and> py_lower s \<in> {ustr ''1'', ustr ''true'', ustr ''yes''})"

text \<open>\<open>url.endswith("/")\<close> and \<open>base_url.rstrip("/")\<close>; 47 is the slash.\<close>

definition ends_with_slash :: "pystr \<Rightarrow> bool" where
  "ends_with_slash s \<longleftrightarrow> s \<noteq> [] \<and> last s = 47"

definition rstrip_slash :: "pystr \<Rightarrow> pystr" where
  "rstrip_slash s = rev (dropWhile (\<lambda>c. c = 47) (rev s))"

text \<open>
  \<open>get_supabase_client\<close>: the calls made, and either the exception of \<open>create_client\<close>
  or whether a client was obtained (\<open>False\<close> is the \<open>None\<close> the source returns).
\<close>

definition get_supabase_client :: "storage_world \<Rightarrow> storage_op list \<times> (storage_exc + bool)" where
  "get_supabase_client w =
     (if \<not> sw_installed w then ([], Inr False)
      else
        (let url = sw_env w (ustr ''SUPABASE_URL'');
             key = sw_env w (ustr ''SUPABASE_SERVICE_ROLE_KEY'')
         in if \<not> truthy_str url \<or> \<not> truthy_str key then ([], Inr False)
            else
              (let url' = (if \<not> ends_with_slash (the url) then the url @ [47] else the url);
                   ops = [OpCreateClient url' (the key)]
               in if sw_create_client_ok w then (ops, Inr True)
                  else (ops, Inl StorageException))))"

text \<open>\<open>ensure_bucket\<close> on a client that is not \<open>None\<close>.\<close>

definition ensure_bucket ::
  "storage_world \<Rightarrow> pystr \<Rightarrow> bool \<Rightarrow> storage_op list \<times> (storage_exc + bool)" where
  "ensure_bucket w bucket public =
     (case sw_list_buckets w of
        None \<Rightarrow> ([OpListBuckets], Inl StorageException)
      | Some names \<Rightarrow>
          if bucket \<in> set names then ([OpListBuckets], Inr True)
          else if sw_create_bucket_ok w
               then ([OpListBuckets, OpCreateBucket bucket public], Inr True)
               else ([OpListBuckets, OpCreateBucket bucket public], Inl StorageException))"

text \<open>\<open>_public_url\<close>\<close>

definition public_url :: "pystr \<Rightarrow> pystr \<Rightarrow> pystr \<Rightarrow> pystr" where
  "public_url base_url bucket object_path =
     base_url @ ustr ''/storage/v1/object/public/'' @ bucket @ [47] @ object_path"

text \<open>\<open>upload_file\<close>\<close>

definition upload_file ::
  "storage_world \<Rightarrow> pystr \<Rightarrow> pystr \<Rightarrow> pystr \<Rightarrow> pystr \<Rightarrow> bool
     \<Rightarrow> storage_op list \<times> (storage_exc + upload_info)" where
  "upload_file w bucket local_path remote_path content_type public =
     (if \<not> sw_read_ok w local_path then ([], Inl StorageException)
      else if \<not> sw_upload_ok w remote_path
      then ([OpUpload bucket remote_path content_type], Inl StorageException)
      else
        (let base_url =
               (if truthy_str (sw_env w (ustr ''SUPABASE_PUBLIC_URL''))
                then the (sw_env w (ustr ''SUPABASE_PUBLIC_URL''))
                else getenv_default w (ustr ''SUPABASE_URL'') []);
             base_url = rstrip_slash base_url;
             info = \<lparr>info_path = remote_path,
                     info_url = (if public \<and> base_url \<noteq> []
                                 then Some (public_url base_url bucket remote_path)
                                 else None)\<rparr>
         in ([OpUpload bucket remote_path content_type], Inr info)))"

text \<open>
  The body of the second \<open>try\<close> of \<open>upload_artifacts\<close>, over the files still to be
  considered: key, local path, remote path and content type of each.  A file that does
  not exist is passed over; the first exception ends the loop with status \<open>failed\<close> and
  the paths collected so far.
\<close>

fun upload_each ::
  "storage_world \<Rightarrow> pystr \<Rightarrow> bool \<Rightarrow> (pystr \<times> pystr \<times> pystr \<times> pystr) list
     \<Rightarrow> (pystr \<times> upload_info) list \<Rightarrow> storage_op list \<times> upload_result" where
  "upload_each w bucket public [] paths =
     ([], \<lparr>up_status = ustr ''success'', up_paths = paths\<rparr>)"
| "upload_each w bucket public ((key, local_path, remote, content_type) # rest) paths =
     (if \<not> sw_exists w local_path then upload_each w bucket public rest paths
      else
        (case upload_file w bucket local_path remote content_type public of
           (ops, Inl e) \<Rightarrow> (ops, \<lparr>up_status = ustr ''failed'', up_paths = paths\<rparr>)
         | (ops, Inr info) \<Rightarrow>
             (let (ops', res) = upload_each w bucket public rest (paths @ [(key, info)])
              in (ops @ ops', res))))"

text \<open>The source file and the three reports, with the content type chosen from the suffix.\<close>

definition upload_candidates ::
  "storage_world \<Rightarrow> pystr \<Rightarrow> pystr \<Rightarrow> pystr \<Rightarrow> (pystr \<times> pystr \<times> pystr \<times> pystr) list" where
  "upload_candidates w file_id source_path report_dir =
     [(ustr ''source_file'', source_path,
       ustr ''sources/'' @ file_id @ [47] @ sw_path_name w source_path,
       ustr ''application/vnd.openxmlformats-officedocument.spreadsheetml.sheet''),
      (ustr ''data_quality_json'', sw_path_join w report_dir (ustr ''data_quality.json''),
       ustr ''reports/'' @ file_id @ [47] @ ustr ''data_quality.json'',
       ustr ''application/json''),
      (ustr ''data_quality_html'', sw_path_join w report_dir (ustr ''data_quality.html''),
       ustr ''reports/'' @ file_id @ [47] @ ustr ''data_quality.html'',
       ustr ''text/html''),
      (ustr ''inconsistencies_csv'', sw_path_join w report_dir (ustr ''inconsistencies.csv''),
       ustr ''reports/'' @ file_id @ [47] @ ustr ''inconsistencies.csv'',
       ustr ''text/csv'')]"

text \<open>
  \<open>upload_artifacts\<close>: the calls made on the client library, and the returned dictionary
  (or the exception of \<open>create_client\<close>, which the function does not catch).
\<close>

definition upload_artifacts ::
  "storage_world \<Rightarrow> pystr \<Rightarrow> pystr \<Rightarrow> pystr \<Rightarrow> storage_op list \<times> (storage_exc + upload_result)" where
  "upload_artifacts w file_id source_path report_dir =
     (case get_supabase_client w of
        (ops0, Inl e) \<Rightarrow> (ops0, Inl e)
      | (ops0, Inr False) \<Rightarrow> (ops0, Inr \<lparr>up_status = ustr ''skipped'', up_paths = []\<rparr>)
      | (ops0, Inr True) \<Rightarrow>
          (let bucket = getenv_default w (ustr ''SUPABASE_STORAGE_BUCKET'') (ustr ''etl-artifacts'');
               public = bool_env (Some (getenv_default w (ustr ''SUPABASE_STORAGE_PUBLIC'')
                                          (ustr ''false'')))
           in case ensure_bucket w bucket public of
                (ops1, Inl e) \<Rightarrow>
                  (ops0 @ ops1, Inr \<lparr>up_status = ustr ''failed'', up_paths = []\<rparr>)
              | (ops1, Inr _) \<Rightarrow>
                  (let (ops2, res) =
                         upload_each w bucket public
                           (upload_candidates w file_id source_path report_dir) []
                   in (ops0 @ ops1 @ ops2, Inr res))))"

text \<open>
  Two environments for the closed instances: one without the service-role key, one fully
  configured where the bucket exists and only the source file and the JSON report are
  on disk.
\<close>

definition ex_world :: "bool \<Rightarrow> storage_world" where
  "ex_world with_key =
     \<lparr>sw_installed = True,
      sw_env = (if with_key
                then [ustr ''SUPABASE_URL'' \<mapsto> ustr ''https://x.supabase.co'',
                      ustr ''SUPABASE_SERVICE_ROLE_KEY'' \<mapsto> ustr ''k'']
                else [ustr ''SUPABASE_URL'' \<mapsto> ustr ''https://x.supabase.co'']),
      sw_create_client_ok = True,
      sw_list_buckets = Some [ustr ''etl-artifacts''],
      sw_create_bucket_ok = True,
      sw_exists = (\<lambda>p. p = ustr ''in.xlsx'' \<or> p = ustr ''reports/data_quality.json''),
      sw_read_ok = (\<lambda>p. True),
      sw_upload_ok = (\<lambda>p. True),
      sw_path_name = (\<lambda>p. p),
      sw_path_join = (\<lambda>d n. d @ [47] @ n)\<rparr>"

section \<open>The checksum guard (\<open>should_skip_by_checksum\<close>)\<close>

text \<open>One row of \<open>raw_ingest.files\<close>, with the columns the guard reads or writes.\<close>

record file_run =
  file_id :: pystr
  checksum_sha256 :: pystr
  status :: pystr
  file_notes :: "pystr option"

text \<open>
  \<open>SELECT file_id, status FROM raw_ingest.files WHERE checksum_sha256 = :c\<close> followed by
  \<open>fetchone()\<close>: the first matching row, if any.  The query has no \<open>ORDER BY\<close>; the
  table is the list of its rows in the order in which the database returns them.
\<close>

definition fetchone_by_checksum :: "file_run list \<Rightarrow> pystr \<Rightarrow> (pystr \<times> pystr) option" where
  "fetchone_by_checksum files c =
     (case filter (\<lambda>r. checksum_sha256 r = c) files of
        [] \<Rightarrow> None
      | r # _ \<Rightarrow> Some (file_id r, status r))"

text \<open>\<open>UPDATE raw_ingest.files SET notes = :note WHERE file_id = :fid\<close>\<close>

definition update_notes :: "pystr \<Rightarrow> pystr \<Rightarrow> file_run list \<Rightarrow> file_run list" where
  "update_notes note fid files =
     map (\<lambda>r. if file_id r = fid then r\<lparr>file_notes := Some note\<rparr> else r) files"

text \<open>
  \<open>should_skip_by_checksum\<close>: the returned pair and the table after the call.
  \<open>now_iso\<close> is \<open>datetime.utcnow().isoformat()\<close>.
\<close>

definition should_skip_by_checksum ::
  "pystr \<Rightarrow> file_run list \<Rightarrow> pystr \<Rightarrow> (bool \<times> pystr option) \<times> file_run list" where
  "should_skip_by_checksum now_iso files checksum =
     (case fetchone_by_checksum files checksum of
        None \<Rightarrow> ((False, None), files)
      | Some (fid, st) \<Rightarrow>
          if st = ustr ''success''
          then (let note = ustr ''Duplicate checksum skipped at '' @ now_iso @ ustr ''Z''
                in ((True, Some fid), update_notes note fid files))
          else ((False, None), files))"

definition ex_files :: "file_run list" where
  "ex_files =
     [\<lparr>file_id = ustr ''file-0'', checksum_sha256 = ustr ''aa'', status = ustr ''failed'',
       file_notes = None\<rparr>,
      \<lparr>file_id = ustr ''file-1'', checksum_sha256 = ustr ''bb'', status = ustr ''success'',
       file_notes = None\<rparr>]"

text \<open>
  The table after a failed run of a file and a successful retry of the same file:
  \<open>run_pipeline\<close> inserts a new record with the same checksum for the retry.
\<close>

definition ex_files_retried :: "file_run list" where
  "ex_files_retried =
     [\<lparr>file_id = ustr ''file-0'', checksum_sha256 = ustr ''aa'', status = ustr ''failed'',
       file_notes = None\<rparr>,
      \<lparr>file_id = ustr ''file-1'', checksum_sha256 = ustr ''aa'', status = ustr ''success'',
       file_notes = None\<rparr>]"

section \<open>The territory checks of \<open>DataQualityChecker.run_checks\<close>\<close>

text \<open>
  An entry of \<open>self.issues\<close>.  The random \<open>issue_id\<close> and the \<open>run_id\<close> are left
  out; \<open>issue_row\<close> is the position in \<open>df\<close> of the row the issue was raised for.
\<close>

datatype issue_detail =
    OriginalTerritory "pystr option" "pystr option"
  | NormTerritory "pystr option" "pystr option"

record dq_issue =
  issue_type :: string
  issue_natural_key :: pystr
  issue_row :: nat
  issue_detail :: issue_detail

text \<open>
  \<open>(df['provincia_norm'].isna()) | (df['provincia_norm'] == '') |
    (df['canton_norm'].isna()) | (df['canton_norm'] == '')\<close>
\<close>

definition invalid_geo_mask :: "offer_row \<Rightarrow> bool" where
  "invalid_geo_mask r \<longleftrightarrow>
     provincia_norm r = None \<or> provincia_norm r = Some [] \<or>
     canton_norm r = None \<or> canton_norm r = Some []"

text \<open>\<open>pair not in self.valid_pairs\<close> for \<open>pair = (provincia_norm, canton_norm)\<close>.\<close>

definition invalid_pair_mask :: "(pystr option \<times> pystr option) set \<Rightarrow> offer_row \<Rightarrow> bool" where
  "invalid_pair_mask valid_pairs r \<longleftrightarrow> (provincia_norm r, canton_norm r) \<notin> valid_pairs"

text \<open>The rows of \<open>df\<close> with their positions, as \<open>iterrows\<close> yields them.\<close>

definition iterrows :: "offer_row list \<Rightarrow> (nat \<times> offer_row) list" where
  "iterrows df = zip [0..<length df] df"

text \<open>\<open>invalid_geo = df[invalid_geo_mask]\<close> and \<open>invalid_pairs = df[invalid_pair_mask & ~invalid_geo_mask]\<close>.\<close>

definition invalid_geo :: "offer_row list \<Rightarrow> (nat \<times> offer_row) list" where
  "invalid_geo df = filter (\<lambda>(i, r). invalid_geo_mask r) (iterrows df)"

definition invalid_pairs ::
  "(pystr option \<times> pystr option) set \<Rightarrow> offer_row list \<Rightarrow> (nat \<times> offer_row) list" where
  "invalid_pairs valid_pairs df =
     filter (\<lambda>(i, r). invalid_pair_mask valid_pairs r \<and> \<not> invalid_geo_mask r) (iterrows df)"

text \<open>
  Check 2 of \<open>run_checks\<close>: the two metrics \<open>invalid_territory\<close> and
  \<open>invalid_territory_pair\<close>, and the issues appended, in order.
\<close>

record territory_report =
  invalid_territory :: nat
  invalid_territory_pair :: nat
  territory_issues :: "dq_issue list"

definition run_territory_checks ::
  "(pystr option \<times> pystr option) set \<Rightarrow> offer_row list \<Rightarrow> territory_report" where
  "run_territory_checks valid_pairs df =
     (let geo = invalid_geo df;
          geo_issues = map (\<lambda>(i, r). \<lparr>issue_type = ''missing_territory_norm'',
                               issue_natural_key = natural_key r, issue_row = i,
                               issue_detail = OriginalTerritory (PROVINCIA r) (CANTON r)\<rparr>) geo
      in if valid_pairs \<noteq> {}
         then (let bad = invalid_pairs valid_pairs df;
                   pair_issues = map (\<lambda>(i, r). \<lparr>issue_type = ''invalid_territory_pair'',
                                        issue_natural_key = natural_key r, issue_row = i,
                                        issue_detail =
                                          NormTerritory (provincia_norm r) (canton_norm r)\<rparr>) bad
               in \<lparr>invalid_territory = length geo, invalid_territory_pair = length bad,
                   territory_issues = geo_issues @ pair_issues\<rparr>)
         else \<lparr>invalid_territory = length geo, invalid_territory_pair = 0,
               territory_issues = geo_issues\<rparr>)"

text \<open>The positions of the rows for which an issue of a given type was raised.\<close>

definition rows_issued :: "string \<Rightarrow> territory_report \<Rightarrow> nat list" where
  "rows_issued ty rep = map issue_row (filter (\<lambda>i. issue_type i = ty) (territory_issues rep))"

text \<open>
  A batch for the closed instance: a row whose canton failed to resolve, a row matched to
  a pair of the catalog, and a row whose pair is not in the catalog.
\<close>

definition ex_geo_row :: "pystr option \<Rightarrow> pystr option \<Rightarrow> offer_row" where
  "ex_geo_row p c = (ex_offer (ustr ''uni a'') (ustr ''k'') (ustr ''h''))
     \<lparr>provincia_norm := p, canton_norm := c\<rparr>"

definition ex_geo_batch :: "offer_row list" where
  "ex_geo_batch = [ex_geo_row (Some (ustr ''pichincha'')) None,
                   ex_geo_row (Some (ustr ''pichincha'')) (Some (ustr ''quito'')),
                   ex_geo_row (Some (ustr ''guayas'')) (Some (ustr ''quito''))]"

definition ex_valid_pairs :: "(pystr option \<times> pystr option) set" where
  "ex_valid_pairs = {(Some (ustr ''pichincha''), Some (ustr ''quito''))}"

section \<open>Keys and hashes (\<open>generate_row_hash\<close>)\<close>

text \<open>Python's truth value of a field, and \<open>a or b\<close>.\<close>

fun truthy :: "pyval \<Rightarrow> bool" where
  "truthy (CStr s) = (s \<noteq> [])"
| "truthy (CInt i) = (i \<noteq> 0)"
| "truthy CNaN = True"
| "truthy CNone = False"

definition py_or :: "pyval \<Rightarrow> pyval \<Rightarrow> pyval" where
  "py_or a b = (if truthy a then a else b)"

text \<open>\<open>row.get(key)\<close> on a row given as a dictionary from column names to values.\<close>

definition row_get :: "(pystr \<rightharpoonup> pyval) \<Rightarrow> pystr \<Rightarrow> pyval" where
  "row_get row key = (case row key of None \<Rightarrow> CNone | Some v \<Rightarrow> v)"

text \<open>Four lower-case hexadecimal digits, as \<open>'{0:04x}'.format(n)\<close> prints them for \<open>n < 65536\<close>.\<close>

definition hex_digit :: "nat \<Rightarrow> nat" where
  "hex_digit d = (if d < 10 then 48 + d else 87 + d)"

definition hex4 :: "nat \<Rightarrow> pystr" where
  "hex4 n = [hex_digit (n div 4096 mod 16), hex_digit (n div 256 mod 16),
             hex_digit (n div 16 mod 16), hex_digit (n mod 16)]"

text \<open>
  The replacement \<open>json\<close> makes for one code point of a string with
  \<open>ensure_ascii=True\<close>: the short escapes, the printable ASCII code points unchanged,
  and \<open>\uXXXX\<close> otherwise, with a surrogate pair above the basic plane
  (\<open>0xd800 | ((v >> 10) & 0x3ff)\<close> and \<open>0xdc00 | (v & 0x3ff)\<close> for \<open>v = n - 0x10000\<close>).
\<close>

definition json_escape_char :: "nat \<Rightarrow> pystr" where
  "json_escape_char c =
     (if c = 34 then [92, 34]
      else if c = 92 then [92, 92]
      else if c = 10 then [92, 110]
      else if c = 13 then [92, 114]
      else if c = 9 then [92, 116]
      else if c = 8 then [92, 98]
      else if c = 12 then [92, 102]
      else if 32 \<le> c \<and> c \<le> 126 then [c]
      else if c < 65536 then [92, 117] @ hex4 c
      else (let v = c - 65536
            in [92, 117] @ hex4 (55296 + v div 1024 mod 1024) @
               [92, 117] @ hex4 (56320 + v mod 1024)))"

definition json_string :: "pystr \<Rightarrow> pystr" where
  "json_string s = [34] @ concat (map json_escape_char s) @ [34]"

text \<open>\<open>json.dumps\<close> of a value.\<close>

fun json_value :: "pyval \<Rightarrow> pystr" where
  "json_value (CStr s) = json_string s"
| "json_value (CInt i) = py_str (CInt i)"
| "json_value CNaN = ustr ''NaN''"
| "json_value CNone = ustr ''null''"

text \<open>
  \<open>json.dumps(content, sort_keys=True)\<close> of a dictionary with string keys, given by its
  items: the items are sorted by key (Python orders strings by code point, which is the
  lexicographic order of the lists), and written with the separators \<open>", "\<close> and
  \<open>": "\<close>.
\<close>

definition json_dumps_sorted :: "(pystr \<times> pyval) list \<Rightarrow> pystr" where
  "json_dumps_sorted content =
     [123] @
     py_join [44, 32] (map (\<lambda>(k, v). json_string k @ [58, 32] @ json_value v)
                         (sort_key fst content)) @
     [125]"

text \<open>
  \<open>str.encode('utf-8')\<close>: the bytes of each code point; a surrogate cannot be encoded
  (\<open>UnicodeEncodeError\<close>, here \<open>None\<close>).
\<close>

definition utf8_char :: "nat \<Rightarrow> nat list option" where
  "utf8_char c =
     (if c < 128 then Some [c]
      else if c < 2048 then Some [192 + c div 64, 128 + c mod 64]
      else if 55296 \<le> c \<and> c \<le> 57343 then None
      else if c < 65536 then Some [224 + c div 4096, 128 + c div 64 mod 64, 128 + c mod 64]
      else Some [240 + c div 262144, 128 + c div 4096 mod 64, 128 + c div 64 mod 64,
                 128 + c mod 64])"

fun utf8_encode :: "pystr \<Rightarrow> nat list option" where
  "utf8_encode [] = Some []"
| "utf8_encode (c # cs) =
     (case utf8_char c of
        None \<Rightarrow> None
      | Some bs \<Rightarrow> (case utf8_encode cs of None \<Rightarrow> None | Some rest \<Rightarrow> Some (bs @ rest)))"

datatype hash_error = KeyError pystr | UnicodeEncodeError

text \<open>
  \<open>generate_row_hash\<close>.  \<open>hashlib.sha256(bytes).hexdigest()\<close> belongs to the Python
  library and is the parameter \<open>sha256_hex\<close>.
\<close>

definition generate_row_hash ::
  "(nat list \<Rightarrow> pystr) \<Rightarrow> (pystr \<rightharpoonup> pyval) \<Rightarrow> hash_error + pystr" where
  "generate_row_hash sha256_hex row =
     (case row (ustr ''natural_key'') of
        None \<Rightarrow> Inl (KeyError (ustr ''natural_key''))
      | Some nk \<Rightarrow>
          (let content = [(ustr ''natural_key'', nk),
                          (ustr ''estado_norm'',
                           py_or (row_get row (ustr ''estado_norm'')) (CStr []))];
               dump = json_dumps_sorted content
           in case utf8_encode dump of
                None \<Rightarrow> Inl UnicodeEncodeError
              | Some bytes \<Rightarrow> Inr (sha256_hex bytes)))"

text \<open>
  A stand-in digest for the closed instances (the length and the sum of the bytes), and
  two rows that differ only in a field the hash does not read.
\<close>

definition toy_digest :: "nat list \<Rightarrow> pystr" where
  "toy_digest bs = digits_of (length bs) @ [45] @ digits_of (sum_list bs)"

definition ex_hash_row :: "pystr \<Rightarrow> (pystr \<rightharpoonup> pyval)" where
  "ex_hash_row ies =
     [ustr ''natural_key'' \<mapsto> CStr (ustr ''a|b''),
      ustr ''estado_norm'' \<mapsto> CStr (ustr ''activa''),
      ustr ''nombre_norm'' \<mapsto> CStr ies]"

text \<open>
  A row whose \<open>ESTADO\<close> cell was empty, so that its \<open>estado_norm\<close> is a missing
  value: once as the float \<open>NaN\<close>, in which pandas holds a missing value, and once as
  \<open>None\<close>.
\<close>

definition ex_missing_status_row :: "pyval \<Rightarrow> (pystr \<rightharpoonup> pyval)" where
  "ex_missing_status_row missing =
     [ustr ''natural_key'' \<mapsto> CStr (ustr ''a|b''),
      ustr ''estado_norm'' \<mapsto> missing]"

text \<open>A string of ASCII code points only.\<close>

definition is_ascii :: "pystr \<Rightarrow> bool" where
  "is_ascii s \<longleftrightarrow> (\<forall>c \<in> set s. c < 128)"

section \<open>Geographic matching (\<open>GeoMatcher.match_territory\<close>)\<close>

text \<open>
  The fields of a \<open>GeoMatcher\<close> that \<open>match_territory\<close> reads: whether a catalog was
  loaded (\<open>self.catalog is not None\<close>), the canonical provinces, and the cantons of each
  province.
\<close>

record geo_matcher =
  catalog_loaded :: bool
  provinces :: "pystr list"
  cantons_by_prov :: "pystr \<rightharpoonup> pystr list"

text \<open>The tuple \<open>match_territory\<close> returns.\<close>

record geo_match =
  m_provincia :: "pystr option"
  m_canton :: "pystr option"
  score_prov :: real
  score_canton :: real
  geo_method :: string

text \<open>
  One level of the matching: an exact hit scores 100, otherwise the best fuzzy candidate
  is taken if there is one and its score reaches the threshold.
  \<open>process.extractOne(query, choices, scorer=fuzz.ratio)\<close> belongs to the rapidfuzz
  library and is the parameter \<open>extract_one\<close>: it returns the best choice with its score,
  or \<open>None\<close>.
\<close>

definition match_level ::
  "(pystr \<Rightarrow> pystr list \<Rightarrow> (pystr \<times> real) option) \<Rightarrow> pystr \<Rightarrow> pystr list \<Rightarrow> real
     \<Rightarrow> (pystr \<times> real) option" where
  "match_level extract_one norm_input choices threshold =
     (if norm_input \<in> set choices then Some (norm_input, 100)
      else (case extract_one norm_input choices of
              None \<Rightarrow> None
            | Some (best, score) \<Rightarrow> if score \<ge> threshold then Some (best, score) else None))"

text \<open>\<open>self.cantons_by_prov.get(matched_prov, [])\<close>\<close>

definition valid_cantons :: "geo_matcher \<Rightarrow> pystr \<Rightarrow> pystr list" where
  "valid_cantons gm matched_prov =
     (case cantons_by_prov gm matched_prov of None \<Rightarrow> [] | Some cs \<Rightarrow> cs)"

text \<open>\<open>match_territory\<close>; the source's default for \<open>threshold\<close> is 85.\<close>

definition match_territory ::
  "(pystr \<Rightarrow> pystr) \<Rightarrow> (pystr \<Rightarrow> pystr list \<Rightarrow> (pystr \<times> real) option) \<Rightarrow> geo_matcher
     \<Rightarrow> pyval \<Rightarrow> pyval \<Rightarrow> real \<Rightarrow> geo_match" where
  "match_territory nfkd extract_one gm provincia_input canton_input threshold =
     (if \<not> catalog_loaded gm
      then \<lparr>m_provincia = None, m_canton = None, score_prov = 0, score_canton = 0,
            geo_method = ''no_catalog''\<rparr>
      else
        (let prov_norm_input = normalize_text nfkd provincia_input;
             canton_norm_input = normalize_text nfkd canton_input
         in case match_level extract_one prov_norm_input (provinces gm) threshold of
              None \<Rightarrow>
                \<lparr>m_provincia = None, m_canton = None, score_prov = 0, score_canton = 0,
                 geo_method = ''failed_prov''\<rparr>
            | Some (matched_prov, prov_score) \<Rightarrow>
                (case match_level extract_one canton_norm_input
                        (valid_cantons gm matched_prov) threshold of
                   None \<Rightarrow>
                     \<lparr>m_provincia = Some matched_prov, m_canton = None,
                      score_prov = prov_score, score_canton = 0,
                      geo_method = ''failed_canton''\<rparr>
                 | Some (matched_canton, canton_score) \<Rightarrow>
                     \<lparr>m_provincia = Some matched_prov, m_canton = Some matched_canton,
                      score_prov = prov_score, score_canton = canton_score,
                      geo_method = (if prov_score = 100 \<and> canton_score = 100
                                    then ''exact'' else ''fuzzy'')\<rparr>)))"

text \<open>
  For the closed instances, the scorer and the selection as rapidfuzz documents them:
  \<open>fuzz.ratio\<close> is the normalised indel similarity, \<open>100 * 2 * lcs / (len1 + len2)\<close>
  with \<open>lcs\<close> the length of a longest common subsequence (100 for two empty strings),
  and \<open>extractOne\<close> returns the first choice of highest score.
\<close>

fun lcs_length :: "pystr \<Rightarrow> pystr \<Rightarrow> nat" where
  "lcs_length [] ys = 0"
| "lcs_length (x # xs) [] = 0"
| "lcs_length (x # xs) (y # ys) =
     (if x = y then Suc (lcs_length xs ys)
      else max (lcs_length xs (y # ys)) (lcs_length (x # xs) ys))"

definition fuzz_ratio :: "pystr \<Rightarrow> pystr \<Rightarrow> real" where
  "fuzz_ratio s t =
     (if s = [] \<and> t = [] then 100
      else 100 * real (2 * lcs_length s t) / real (length s + length t))"

fun extract_first_best :: "pystr \<Rightarrow> pystr list \<Rightarrow> (pystr \<times> real) option" where
  "extract_first_best query [] = None"
| "extract_first_best query (c # cs) =
     (case extract_first_best query cs of
        None \<Rightarrow> Some (c, fuzz_ratio query c)
      | Some (best, score) \<Rightarrow>
          if fuzz_ratio query c \<ge> score then Some (c, fuzz_ratio query c)
          else Some (best, score))"

text \<open>A catalog with one province and one canton.\<close>

definition ex_matcher :: geo_matcher where
  "ex_matcher = \<lparr>catalog_loaded = True,
     provinces = [ustr ''santo domingo tsachilas''],
     cantons_by_prov = [ustr ''santo domingo tsachilas'' \<mapsto> [ustr ''santo domingo'']]\<rparr>"

section \<open>Properties of the SCD step\<close>

lemma insert_fact_missing_status:
  "map (\<lambda>r. (estado_original r, fact_estado_norm r))
       (insert_fact env i t p (row\<lparr>ESTADO := CNaN, estado_norm := CNone\<rparr>) []) =
     [(Some (ustr ''NaN''), None)]"
  by (simp add: insert_fact_def)

lemma dict_of_fold_dom:
  "dom (fold (\<lambda>(k, v) m. m(k \<mapsto> v)) kvs m0) = dom m0 \<union> fst ` set kvs"
  by (induction kvs arbitrary: m0) (auto split: prod.splits)

lemma dom_existing_map_of: "dom (existing_map_of tbl) = set (current_keys tbl)"
  by (auto simp: existing_map_of_def dict_of_def dict_of_fold_dom select_current_def
      current_keys_def image_iff)

lemma current_keys_touch: "current_keys (touch_current env nk tbl) = current_keys tbl"
  unfolding current_keys_def touch_current_def
  by (induction tbl) auto

lemma current_keys_expire:
  "current_keys (expire_current env nk tbl) = filter (\<lambda>k. k \<noteq> nk) (current_keys tbl)"
  unfolding current_keys_def expire_current_def
  by (induction tbl) auto

lemma current_keys_insert:
  "current_keys (insert_fact env i t p row tbl) = current_keys tbl @ [natural_key row]"
  by (simp add: insert_fact_def current_keys_def)

lemma scd_step_ok:
  assumes "scd_ok em (insert (natural_key row) pending) tbl" "natural_key row \<notin> pending"
  shows "scd_ok em pending (fst (scd_step env em row (tbl, c)))"
  using assms
  by (auto simp: scd_ok_def scd_step_def Let_def current_keys_touch current_keys_expire
      current_keys_insert split: option.splits)

lemma scd_loop_ok:
  "distinct (map natural_key rows) \<Longrightarrow> scd_ok em (set (map natural_key rows)) tbl \<Longrightarrow>
   scd_ok em {} (fst (scd_loop env em rows (tbl, c)))"
proof (induction rows arbitrary: tbl c)
  case Nil
  then show ?case by (simp add: scd_loop_def)
next
  case (Cons r rs)
  obtain tbl' c' where st: "scd_step env em r (tbl, c) = (tbl', c')"
    by (cases "scd_step env em r (tbl, c)")
  from Cons.prems have "scd_ok em (set (map natural_key rs)) (fst (scd_step env em r (tbl, c)))"
    by (intro scd_step_ok) auto
  with st have "scd_ok em (set (map natural_key rs)) tbl'" by simp
  with Cons.IH[of tbl' c'] Cons.prems(1)
  have "scd_ok em {} (fst (scd_loop env em rs (tbl', c')))" by simp
  then show ?case using st by (simp add: scd_loop_def)
qed

lemma set_drop_duplicates_last:
  "natural_key ` set (drop_duplicates_last df) = natural_key ` set df"
  by (induction df) auto

lemma distinct_drop_duplicates_last: "distinct (map natural_key (drop_duplicates_last df))"
proof (induction df)
  case Nil
  show ?case by simp
next
  case (Cons r rs)
  have "natural_key r \<notin> natural_key ` set rs \<Longrightarrow>
        natural_key r \<notin> natural_key ` set (drop_duplicates_last rs)"
    by (simp add: set_drop_duplicates_last)
  with Cons show ?case by auto
qed

lemma length_drop_duplicates_last:
  "length (drop_duplicates_last df) = card (natural_key ` set df)"
proof -
  have "length (drop_duplicates_last df) = length (map natural_key (drop_duplicates_last df))"
    by simp
  also have "\<dots> = card (set (map natural_key (drop_duplicates_last df)))"
    using distinct_card[OF distinct_drop_duplicates_last[of df]] by simp
  also have "\<dots> = card (natural_key ` set df)"
    by (simp add: set_drop_duplicates_last)
  finally show ?thesis .
qed

lemma scd_step_total:
  "counts_total (snd (scd_step env em row (tbl, c))) = Suc (counts_total c)"
  by (auto simp: scd_step_def Let_def counts_total_def split: option.splits)

lemma scd_loop_total:
  "counts_total (snd (scd_loop env em rows (tbl, c))) = counts_total c + length rows"
proof (induction rows arbitrary: tbl c)
  case Nil
  show ?case by (simp add: scd_loop_def)
next
  case (Cons r rs)
  obtain tbl' c' where st: "scd_step env em r (tbl, c) = (tbl', c')"
    by (cases "scd_step env em r (tbl, c)")
  have "counts_total c' = Suc (counts_total c)"
    using scd_step_total[of env em r tbl c] st by simp
  with Cons.IH[of tbl' c'] st show ?case by (simp add: scd_loop_def)
qed

lemma scd_step_one_counter:
  "snd (scd_step env em row (tbl, c)) = c\<lparr>inserts_count := inserts_count c + 1\<rparr> \<or>
   snd (scd_step env em row (tbl, c)) = c\<lparr>updates_count := updates_count c + 1\<rparr> \<or>
   snd (scd_step env em row (tbl, c)) = c\<lparr>unchanged_count := unchanged_count c + 1\<rparr> \<or>
   snd (scd_step env em row (tbl, c)) = c\<lparr>skipped_missing_dims := skipped_missing_dims c + 1\<rparr>"
  by (auto simp: scd_step_def Let_def split: option.splits)

text \<open>
  Claim C1.  If the fact table holds at most one row with \<open>is_current = TRUE\<close> per natural
  key when the SCD step starts, then it still does when the step has processed the batch,
  whatever the batch and the dimension lookups are (new insert, expire-then-insert on a
  changed hash, touch on an unchanged hash, or skip on a missing dimension).
\<close>

theorem scd_preserves_one_current_per_key:
  "one_current_per_key tbl \<Longrightarrow> one_current_per_key (fst (scd_fact env tbl df))"
proof -
  assume a: "one_current_per_key tbl"
  have "scd_ok (existing_map_of tbl) (set (map natural_key (drop_duplicates_last df))) tbl"
    using a by (simp add: scd_ok_def one_current_per_key_def dom_existing_map_of)
  from scd_loop_ok[OF distinct_drop_duplicates_last this]
  show ?thesis by (simp add: scd_fact_def scd_ok_def one_current_per_key_def)
qed

theorem scd_preserves_one_current_per_key_witness:
  "one_current_per_key ex_table \<and> one_current_per_key (fst (scd_fact ex_env ex_table ex_batch))"
proof -
  have h: "one_current_per_key ex_table"
    by (simp add: one_current_per_key_def current_keys_def ex_table_def ex_fact_def)
  show ?thesis
    using h scd_preserves_one_current_per_key [OF h, of ex_env ex_batch] by simp
qed

text \<open>
  Claim C2.  After the loop the four counters add up to the number of distinct natural
  keys of the batch; the loop runs over exactly one row per distinct natural key; and
  each iteration adds one to exactly one of the four counters and leaves the other
  three as they were.
\<close>

theorem scd_count_accounting:
  "counts_total (snd (scd_fact env tbl df)) = card (natural_key ` set df) \<and>
   distinct (map natural_key (drop_duplicates_last df)) \<and>
   natural_key ` set (drop_duplicates_last df) = natural_key ` set df \<and>
   (snd (scd_step env em row (t, c)) = c\<lparr>inserts_count := inserts_count c + 1\<rparr> \<or>
    snd (scd_step env em row (t, c)) = c\<lparr>updates_count := updates_count c + 1\<rparr> \<or>
    snd (scd_step env em row (t, c)) = c\<lparr>unchanged_count := unchanged_count c + 1\<rparr> \<or>
    snd (scd_step env em row (t, c)) =
      c\<lparr>skipped_missing_dims := skipped_missing_dims c + 1\<rparr>)"
proof -
  have "counts_total (snd (scd_fact env tbl df)) = card (natural_key ` set df)"
    using scd_loop_total[of env "existing_map_of tbl" "drop_duplicates_last df" tbl zero_counts]
    by (simp add: scd_fact_def length_drop_duplicates_last counts_total_def zero_counts_def)
  then show ?thesis
    using distinct_drop_duplicates_last[of df] set_drop_duplicates_last[of df]
      scd_step_one_counter[of env em row t c]
    by blast
qed

theorem scd_count_accounting_witness:
  "snd (scd_fact ex_env ex_table ex_batch) =
     \<lparr>inserts_count = 1, updates_count = 1, unchanged_count = 0, skipped_missing_dims = 1\<rparr> \<and>
   counts_total (snd (scd_fact ex_env ex_table ex_batch)) = card (natural_key ` set ex_batch)"
proof -
  have "snd (scd_fact ex_env ex_table ex_batch) =
     \<lparr>inserts_count = 1, updates_count = 1, unchanged_count = 0, skipped_missing_dims = 1\<rparr>"
    by code_simp
  then show ?thesis
    using scd_count_accounting [of ex_env ex_table ex_batch] by simp
qed

section \<open>Properties of text normalisation\<close>

lemma words_ok_Nil: "words_ok []"
  by (simp add: words_ok_def)

lemma words_ok_Cons: "words_ok (w # ws) \<longleftrightarrow> w \<noteq> [] \<and> (\<forall>c \<in> set w. \<not> is_space c) \<and> words_ok ws"
  by (simp add: words_ok_def)

lemma split_acc_word:
  "\<forall>c \<in> set w. \<not> is_space c \<Longrightarrow> split_acc cur (w @ rest) = split_acc (cur @ w) rest"
  by (induction w arbitrary: cur) simp_all

lemma split_acc_words_ok:
  "\<forall>c \<in> set cur. \<not> is_space c \<Longrightarrow> words_ok (split_acc cur s)"
proof (induction s arbitrary: cur)
  case Nil
  then show ?case by (simp add: words_ok_Nil words_ok_Cons)
next
  case (Cons a s)
  show ?case
  proof (cases "is_space a")
    case True
    have "words_ok (split_acc [] s)" using Cons.IH[of "[]"] by simp
    then show ?thesis using True Cons.prems by (simp add: words_ok_Cons)
  next
    case False
    with Cons.prems have "\<forall>c \<in> set (cur @ [a]). \<not> is_space c" by simp
    from Cons.IH[OF this] show ?thesis using False by simp
  qed
qed

lemma split_acc_chars:
  "w \<in> set (split_acc cur s) \<Longrightarrow> set w \<subseteq> set cur \<union> set s"
proof (induction s arbitrary: cur)
  case Nil
  then show ?case by (cases "cur = []") simp_all
next
  case (Cons a s)
  show ?case
  proof (cases "is_space a")
    case True
    with Cons.prems have "w = cur \<or> w \<in> set (split_acc [] s)"
      by (cases "cur = []") simp_all
    then show ?thesis
    proof
      assume "w = cur"
      then show ?thesis by blast
    next
      assume "w \<in> set (split_acc [] s)"
      from Cons.IH[OF this] show ?thesis by (simp add: subset_iff)
    qed
  next
    case False
    with Cons.prems have "w \<in> set (split_acc (cur @ [a]) s)" by simp
    from Cons.IH[OF this] show ?thesis by (simp add: subset_iff)
  qed
qed

lemma is_space_32: "is_space 32"
  by (simp add: is_space_def)

lemma split_acc_join:
  "words_ok ws \<Longrightarrow> split_acc [] (py_join [32] ws) = ws"
proof (induction ws)
  case Nil
  show ?case by simp
next
  case (Cons w ws)
  from Cons.prems have w: "\<forall>c \<in> set w. \<not> is_space c" "w \<noteq> []" and rest: "words_ok ws"
    by (simp_all add: words_ok_Cons)
  show ?case
  proof (cases ws)
    case Nil
    then show ?thesis using split_acc_word[OF w(1), of "[]" "[]"] w(2) by simp
  next
    case (Cons v vs)
    have "split_acc [] (py_join [32] (w # v # vs)) = split_acc w (32 # py_join [32] (v # vs))"
      using split_acc_word[OF w(1), of "[]" "32 # py_join [32] (v # vs)"] by simp
    also have "\<dots> = w # split_acc [] (py_join [32] (v # vs))"
      using w(2) by (simp add: is_space_32)
    finally show ?thesis using Cons.IH[OF rest] Cons by simp
  qed
qed

lemma set_py_join: "c \<in> set (py_join sep ws) \<Longrightarrow> c \<in> set sep \<or> (\<exists>w \<in> set ws. c \<in> set w)"
proof (induction ws)
  case Nil
  then show ?case by simp
next
  case (Cons w ws)
  then show ?case by (cases ws) auto
qed

lemma py_join_Nil_iff: "words_ok ws \<Longrightarrow> py_join sep ws = [] \<longleftrightarrow> ws = []"
proof (cases ws)
  case Nil
  then show ?thesis by simp
next
  case (Cons w vs)
  assume "words_ok ws"
  with Cons have "w \<noteq> []" by (simp add: words_ok_Cons)
  then show ?thesis using Cons by (cases vs) simp_all
qed

lemma hd_py_join: "words_ok ws \<Longrightarrow> ws \<noteq> [] \<Longrightarrow> hd (py_join sep ws) = hd (hd ws)"
proof (cases ws)
  case Nil
  assume "ws \<noteq> []"
  with Nil show ?thesis by simp
next
  case (Cons w vs)
  assume "words_ok ws"
  with Cons have "w \<noteq> []" by (simp add: words_ok_Cons)
  then show ?thesis using Cons by (cases vs) simp_all
qed

lemma last_py_join: "words_ok ws \<Longrightarrow> ws \<noteq> [] \<Longrightarrow> last (py_join sep ws) = last (last ws)"
proof (induction ws)
  case Nil
  then show ?case by simp
next
  case (Cons w ws)
  show ?case
  proof (cases ws)
    case Nil
    then show ?thesis by simp
  next
    case (Cons v vs)
    from Cons.prems have ok: "words_ok ws" by (simp add: words_ok_Cons)
    have ne: "py_join sep ws \<noteq> []" using py_join_Nil_iff[OF ok, of sep] Cons by simp
    have "last (py_join sep ws) = last (last ws)" using Cons.IH[OF ok] Cons by simp
    then show ?thesis using ne Cons by simp
  qed
qed

lemma strip_where_id:
  assumes "s = [] \<or> (\<not> P (hd s) \<and> \<not> P (last s))"
  shows "strip_where P s = s"
proof (cases s rule: rev_cases)
  case Nil
  then show ?thesis by (simp add: strip_where_def)
next
  case (snoc ys y)
  with assms have h: "\<not> P (hd s)" and l: "\<not> P y" by simp_all
  have 1: "dropWhile P s = s"
  proof (cases s)
    case Nil
    then show ?thesis by simp
  next
    case (Cons a as)
    with h show ?thesis by simp
  qed
  have "dropWhile P (rev s) = rev s" using l snoc by simp
  with 1 show ?thesis by (simp add: strip_where_def)
qed

lemma set_strip_where: "c \<in> set (strip_where P s) \<Longrightarrow> c \<in> set s"
proof -
  assume "c \<in> set (strip_where P s)"
  then have "c \<in> set (dropWhile P (rev (dropWhile P s)))" by (simp add: strip_where_def)
  then have "c \<in> set (rev (dropWhile P s))" by (rule set_dropWhileD)
  then have "c \<in> set (dropWhile P s)" by simp
  then show ?thesis by (rule set_dropWhileD)
qed

lemma py_strip_join:
  assumes "words_ok ws"
  shows "py_strip (py_join [32] ws) = py_join [32] ws"
proof (cases "ws = []")
  case True
  then show ?thesis by (simp add: py_strip_def strip_where_def)
next
  case False
  then have h: "hd ws \<in> set ws" "last ws \<in> set ws" by simp_all
  from h(1) assms have 1: "hd ws \<noteq> []" "\<forall>c \<in> set (hd ws). \<not> is_space c"
    unfolding words_ok_def by blast+
  from h(2) assms have 2: "last ws \<noteq> []" "\<forall>c \<in> set (last ws). \<not> is_space c"
    unfolding words_ok_def by blast+
  from 1 have a: "\<not> is_space (hd (hd ws))" by simp
  from 2 have b: "\<not> is_space (last (last ws))" by simp
  have "\<not> is_space (hd (py_join [32] ws)) \<and> \<not> is_space (last (py_join [32] ws))"
    using a b hd_py_join[OF assms False, of "[32]"] last_py_join[OF assms False, of "[32]"]
    by simp
  then show ?thesis unfolding py_strip_def by (intro strip_where_id) blast
qed

lemma lower_char_idem: "lower_char (lower_char c) = lower_char c"
  by (simp add: lower_char_def)

lemma lower_char_ascii: "c < 128 \<Longrightarrow> lower_char c < 128"
  by (simp add: lower_char_def)

lemma normal_form_Nil: "normal_form []"
  unfolding normal_form_def
  by (rule exI[of _ "[]"]) (simp add: words_ok_Nil)

lemma normalize_text_normal_form: "normal_form (normalize_text nfkd v)"
proof (cases v)
  case (CStr s)
  define t where "t = py_strip (py_lower (encode_ascii_ignore (nfkd s)))"
  have chars: "ascii_lower c" if "c \<in> set t" for c
  proof -
    from that have "c \<in> set (py_lower (encode_ascii_ignore (nfkd s)))"
      unfolding t_def py_strip_def by (rule set_strip_where)
    then obtain d where "d < 128" "c = lower_char d"
      by (auto simp: py_lower_def encode_ascii_ignore_def)
    then show ?thesis
      by (simp add: ascii_lower_def lower_char_idem lower_char_ascii)
  qed
  have ok: "words_ok (py_split t)"
    by (simp add: py_split_def split_acc_words_ok)
  have "\<forall>w \<in> set (py_split t). \<forall>c \<in> set w. ascii_lower c"
  proof (intro ballI)
    fix w c assume "w \<in> set (py_split t)" "c \<in> set w"
    then have "c \<in> set t" using split_acc_chars[of w "[]" t] by (auto simp: py_split_def)
    then show "ascii_lower c" by (rule chars)
  qed
  with ok have "normal_form (py_join [32] (py_split t))"
    unfolding normal_form_def by blast
  then show ?thesis using CStr by (simp add: t_def Let_def)
next
  case (CInt x)
  then show ?thesis by (simp add: normal_form_Nil)
next
  case CNaN
  then show ?thesis by (simp add: normal_form_Nil)
next
  case CNone
  then show ?thesis by (simp add: normal_form_Nil)
qed

lemma normalize_text_fixes_normal_form:
  assumes nf: "normal_form t" and id: "\<forall>u. (\<forall>c \<in> set u. c < 128) \<longrightarrow> nfkd u = u"
  shows "normalize_text nfkd (CStr t) = t"
proof -
  from nf obtain ws where ok: "words_ok ws" and t: "t = py_join [32] ws"
    and chars: "\<forall>w \<in> set ws. \<forall>c \<in> set w. ascii_lower c"
    unfolding normal_form_def by blast
  have lc32: "ascii_lower 32" by (simp add: ascii_lower_def lower_char_def)
  have all: "ascii_lower c" if "c \<in> set t" for c
  proof -
    from that have "c \<in> set [32] \<or> (\<exists>w \<in> set ws. c \<in> set w)"
      unfolding t by (rule set_py_join)
    then show ?thesis using chars lc32 by auto
  qed
  then have "\<forall>c \<in> set t. c < 128" by (simp add: ascii_lower_def)
  then have 1: "nfkd t = t" using id by blast
  have 2: "encode_ascii_ignore t = t"
    using all by (simp add: encode_ascii_ignore_def ascii_lower_def)
  have 3: "py_lower t = t"
    unfolding py_lower_def using all by (intro map_idI) (simp add: ascii_lower_def)
  have 4: "py_strip t = t" using py_strip_join[OF ok] t by simp
  have 5: "py_split t = ws" using split_acc_join[OF ok] t by (simp add: py_split_def)
  show ?thesis using 1 2 3 4 5 t by (simp add: Let_def)
qed

lemma decomp_latin_ascii: "c < 128 \<Longrightarrow> decomp_latin c = [c]"
  by (simp add: decomp_latin_def)

lemma nfkd_latin_ascii: "\<forall>c \<in> set u. c < 128 \<Longrightarrow> nfkd_latin u = u"
  by (induction u) (simp_all add: nfkd_latin_def decomp_latin_ascii)

text \<open>
  Claim C9.  \<open>normalize_text\<close> is idempotent: normalising its own result changes
  nothing, for every input value (string or not), provided the library's NFKD leaves
  ASCII strings as they are.
\<close>

theorem normalize_text_idempotent:
  assumes "\<forall>u. (\<forall>c \<in> set u. c < 128) \<longrightarrow> nfkd u = u"
  shows "normalize_text nfkd (CStr (normalize_text nfkd v)) = normalize_text nfkd v"
  using normalize_text_fixes_normal_form[OF normalize_text_normal_form assms] .

lemma normalize_text_ex_text:
  "normalize_text nfkd_latin ex_text = ustr ''santo domingo tsachilas''"
  by (simp add: ex_text_def ustr_def nfkd_latin_def decomp_latin_def encode_ascii_ignore_def
      py_lower_def lower_char_def py_strip_def strip_where_def is_space_def py_split_def)

theorem normalize_text_idempotent_witness:
  "normalize_text nfkd_latin ex_text = ustr ''santo domingo tsachilas'' \<and>
   normalize_text nfkd_latin (CStr (normalize_text nfkd_latin ex_text)) =
     normalize_text nfkd_latin ex_text"
proof -
  have h: "\<forall>u. (\<forall>c \<in> set u. c < 128) \<longrightarrow> nfkd_latin u = u"
    using nfkd_latin_ascii by blast
  show ?thesis
    using normalize_text_ex_text normalize_text_idempotent [OF h, of ex_text] by blast
qed

section \<open>Properties of the tabular loader\<close>

lemma set_dict_keys: "set (dict_keys xs) = set xs"
proof (induction xs rule: dict_keys.induct)
  case 1
  show ?case by simp
next
  case (2 x xs)
  then show ?case by (auto simp: key_eq_def)
qed

lemma map_of_setdefault_append:
  "map_of (setdefault_append k v acc) k' =
     (if k' = k then Some (values_at k acc @ [v]) else map_of acc k')"
  by (induction acc) (auto simp: values_at_def)

lemma map_of_collisions_fold:
  "map_of (fold (\<lambda>(original, norm) acc. setdefault_append norm original acc) items acc) k =
     (if filter (\<lambda>(original, norm). norm = k) items = [] then map_of acc k
      else Some (values_at k acc @ map fst (filter (\<lambda>(original, norm). norm = k) items)))"
proof (induction items arbitrary: acc)
  case Nil
  show ?case by simp
next
  case (Cons it items)
  obtain original norm where it: "it = (original, norm)" by (cases it)
  show ?case
    unfolding it
    by (simp add: Cons.IH map_of_setdefault_append values_at_def)
qed

lemma map_of_collisions_of:
  "map_of (collisions_of items) k =
     (if filter (\<lambda>(original, norm). norm = k) items = [] then None
      else Some (map fst (filter (\<lambda>(original, norm). norm = k) items)))"
  unfolding collisions_of_def
  by (simp add: map_of_collisions_fold values_at_def)

lemma two_in_filter:
  assumes "a \<in> set xs" "b \<in> set xs" "a \<noteq> b" "P a" "P b"
  shows "length (filter P xs) > 1"
proof -
  have "{a, b} \<subseteq> set (filter P xs)" using assms by simp
  then have "card {a, b} \<le> card (set (filter P xs))" by (intro card_mono) simp_all
  also have "\<dots> \<le> length (filter P xs)" by (rule card_length)
  finally show ?thesis using assms(3) by simp
qed

lemma dupes_of_collision:
  assumes "c1 \<in> set cols" "c2 \<in> set cols" "c1 \<noteq> c2"
    and "normalize_column_name nfkd c1 = normalize_column_name nfkd c2"
  shows "\<exists>vs. (normalize_column_name nfkd c1, vs) \<in> set (dupes_of (normalized_items nfkd cols))"
proof -
  let ?k = "normalize_column_name nfkd c1"
  let ?items = "normalized_items nfkd cols"
  let ?sel = "filter (\<lambda>(original, norm). norm = ?k) ?items"
  have sel: "?sel = map (\<lambda>c. (c, normalize_column_name nfkd c))
      (filter (\<lambda>c. normalize_column_name nfkd c = ?k) (dict_keys cols))"
    by (simp add: normalized_items_def filter_map comp_def)
  have len: "length (filter (\<lambda>c. normalize_column_name nfkd c = ?k) (dict_keys cols)) > 1"
    using assms by (intro two_in_filter[where a=c1 and b=c2]) (simp_all add: set_dict_keys)
  then have ne: "?sel \<noteq> []" unfolding sel by auto
  have "map_of (collisions_of ?items) ?k = Some (map fst ?sel)"
    using ne by (simp add: map_of_collisions_of)
  then have "(?k, map fst ?sel) \<in> set (collisions_of ?items)" by (rule map_of_SomeD)
  moreover have "length (map fst ?sel) > 1" using len unfolding sel by simp
  ultimately have "(?k, map fst ?sel) \<in> set (dupes_of ?items)"
    by (simp add: dupes_of_def)
  then show ?thesis by blast
qed

lemma normalize_columns_duplicate:
  assumes "c1 \<in> set (df_columns df)" "c2 \<in> set (df_columns df)" "c1 \<noteq> c2"
    and "normalize_column_name nfkd c1 = normalize_column_name nfkd c2"
  shows "\<exists>dupes. normalize_columns nfkd df = Inl (DuplicateColumns dupes) \<and>
           normalize_column_name nfkd c1 \<in> fst ` set dupes"
proof -
  from dupes_of_collision[OF assms] obtain vs where
    in_d: "(normalize_column_name nfkd c1, vs) \<in> set (dupes_of (normalized_items nfkd (df_columns df)))"
    by blast
  then have "dupes_of (normalized_items nfkd (df_columns df)) \<noteq> []" by auto
  then have "normalize_columns nfkd df = Inl (DuplicateColumns (dupes_of (normalized_items nfkd (df_columns df))))"
    by (simp add: normalize_columns_def Let_def)
  moreover have "normalize_column_name nfkd c1 \<in> fst ` set (dupes_of (normalized_items nfkd (df_columns df)))"
    using in_d by force
  ultimately show ?thesis by blast
qed

lemma ncn_nivel:
  assumes "nfkd (ustr ''NIVEL FORMACI'' @ [211] @ ustr ''N'') = ustr ''NIVEL FORMACIO'' @ [769] @ ustr ''N''"
  shows "normalize_column_name nfkd (CStr (ustr ''NIVEL FORMACI'' @ [211] @ ustr ''N'')) = ustr ''NIVEL_FORMACION''"
  using assms
  by (simp add: normalize_column_name_def ustr_def encode_ascii_ignore_def py_upper_def upper_char_def
      py_strip_def strip_where_def is_space_def is_upper_alnum_def)

lemma ncn_canton:
  assumes "nfkd (ustr ''CANT'' @ [211] @ ustr ''N'') = ustr ''CANTO'' @ [769] @ ustr ''N''"
  shows "normalize_column_name nfkd (CStr (ustr ''CANT'' @ [211] @ ustr ''N'')) = ustr ''CANTON''"
  using assms
  by (simp add: normalize_column_name_def ustr_def encode_ascii_ignore_def py_upper_def upper_char_def
      py_strip_def strip_where_def is_space_def is_upper_alnum_def)

lemma scan_rows_None:
  "scan_rows nfkd k rs = None \<longleftrightarrow> (\<forall>i < length rs. \<not> covers_required nfkd (rs ! i))"
proof (induction rs arbitrary: k)
  case Nil
  show ?case by simp
next
  case (Cons r rs)
  show ?case
  proof (cases "covers_required nfkd r")
    case True
    then show ?thesis by auto
  next
    case False
    have "(\<forall>i < length (r # rs). \<not> covers_required nfkd ((r # rs) ! i)) \<longleftrightarrow>
          (\<forall>i < length rs. \<not> covers_required nfkd (rs ! i))"
      using False by (auto simp: nth_Cons split: nat.splits)
    then show ?thesis using False Cons.IH[of "Suc k"] by simp
  qed
qed

lemma scan_rows_Some:
  "scan_rows nfkd k rs = Some h \<Longrightarrow>
     k \<le> h \<and> h - k < length rs \<and> covers_required nfkd (rs ! (h - k)) \<and>
     (\<forall>j < h - k. \<not> covers_required nfkd (rs ! j))"
proof (induction rs arbitrary: k)
  case Nil
  then show ?case by simp
next
  case (Cons r rs)
  show ?case
  proof (cases "covers_required nfkd r")
    case True
    with Cons.prems have "h = k" by simp
    then show ?thesis using True by simp
  next
    case False
    with Cons.prems have "scan_rows nfkd (Suc k) rs = Some h" by simp
    from Cons.IH[OF this] have ih: "Suc k \<le> h" "h - Suc k < length rs"
      "covers_required nfkd (rs ! (h - Suc k))"
      "\<forall>j < h - Suc k. \<not> covers_required nfkd (rs ! j)" by simp_all
    from ih(1) obtain d where d: "h - k = Suc d" "h - Suc k = d"
      by (metis Suc_diff_le diff_Suc_Suc)
    have "\<forall>j < Suc d. \<not> covers_required nfkd ((r # rs) ! j)"
      using False ih(4) d(2) by (auto simp: nth_Cons split: nat.splits)
    then show ?thesis using ih d by simp
  qed
qed

lemma detect_header_row_None:
  "detect_header_row nfkd df_raw m = None \<longleftrightarrow>
     (\<forall>i < min m (length (df_rows df_raw)). \<not> covers_required nfkd (df_rows df_raw ! i))"
  by (simp add: detect_header_row_def Let_def scan_rows_None)

lemma detect_header_row_Some:
  assumes "detect_header_row nfkd df_raw m = Some h"
  shows "h < min m (length (df_rows df_raw)) \<and> covers_required nfkd (df_rows df_raw ! h) \<and>
         (\<forall>j < h. \<not> covers_required nfkd (df_rows df_raw ! j))"
proof -
  define n where "n = min m (length (df_rows df_raw))"
  define rs where "rs = take n (df_rows df_raw)"
  from assms have "scan_rows nfkd 0 rs = Some h"
    by (simp add: detect_header_row_def Let_def rs_def n_def)
  from scan_rows_Some[OF this] have a: "h < length rs" and b: "covers_required nfkd (rs ! h)"
    and c: "\<forall>j < h. \<not> covers_required nfkd (rs ! j)" by simp_all
  have len: "length rs = n" by (simp add: rs_def n_def)
  have nth: "rs ! j = df_rows df_raw ! j" if "j < n" for j
    using that by (simp add: rs_def)
  from a len have lt: "h < n" by simp
  have 1: "covers_required nfkd (df_rows df_raw ! h)" using b nth[OF lt] by simp
  have 2: "\<forall>j < h. \<not> covers_required nfkd (df_rows df_raw ! j)"
  proof (intro allI impI)
    fix j assume "j < h"
    with lt have "j < n" by simp
    from nth[OF this] c \<open>j < h\<close> show "\<not> covers_required nfkd (df_rows df_raw ! j)" by metis
  qed
  show ?thesis using lt 1 2 unfolding n_def by blast
qed

lemma nfkd_latin_nivel:
  "nfkd_latin (ustr ''NIVEL FORMACI'' @ [211] @ ustr ''N'') = ustr ''NIVEL FORMACIO'' @ [769] @ ustr ''N''"
  by (simp add: nfkd_latin_def decomp_latin_def ustr_def)

lemma nfkd_latin_canton:
  "nfkd_latin (ustr ''CANT'' @ [211] @ ustr ''N'') = ustr ''CANTO'' @ [769] @ ustr ''N''"
  by (simp add: nfkd_latin_def decomp_latin_def ustr_def)

lemma normalize_columns_ex_dup_df:
  "normalize_columns nfkd_latin ex_dup_df =
     Inl (DuplicateColumns [(ustr ''NOMBRE_IES'',
            [CStr (ustr ''NOMBRE IES''), CStr (ustr ''NOMBRE_IES'')])])"
  by (simp add: normalize_columns_def normalized_items_def dupes_of_def collisions_of_def
      key_eq_def ex_dup_df_def normalize_column_name_def ustr_def nfkd_latin_def decomp_latin_def
      encode_ascii_ignore_def py_upper_def upper_char_def py_strip_def strip_where_def
      is_space_def is_upper_alnum_def)

lemma ncn_ascii:
  "normalize_column_name nfkd_latin (CStr (ustr ''A'')) = ustr ''A''"
  "normalize_column_name nfkd_latin (CStr (ustr ''B'')) = ustr ''B''"
  by (simp_all add: normalize_column_name_def ustr_def nfkd_latin_def decomp_latin_def
      encode_ascii_ignore_def py_upper_def upper_char_def py_strip_def strip_where_def
      is_space_def is_upper_alnum_def)

lemma ncn_cells:
  "normalize_column_name nfkd_latin (CInt 1) = ustr ''1''"
  "normalize_column_name nfkd_latin (CNaN) = ustr ''NAN''"
  by (simp_all add: normalize_column_name_def ustr_def nfkd_latin_def decomp_latin_def
      encode_ascii_ignore_def py_upper_def upper_char_def py_strip_def strip_where_def
      is_space_def is_upper_alnum_def)

lemma normalize_columns_nan_labels:
  "normalize_columns nfkd_latin \<lparr>df_columns = [CNaN, CNaN], df_rows = []\<rparr> =
     Inl (DuplicateColumns [(ustr ''NAN'', [CNaN, CNaN])])"
  by (simp add: normalize_columns_def normalized_items_def dupes_of_def collisions_of_def
      key_eq_def ncn_cells)

lemma normalize_columns_ex_plain: "normalize_columns nfkd_latin ex_plain_df0 = Inr ex_plain_df"
  by (simp add: normalize_columns_def normalized_items_def dupes_of_def collisions_of_def
      key_eq_def ncn_ascii ex_plain_df0_def ex_plain_df_def)

lemma missing_cols_ex_plain: "missing_cols ex_plain_df = REQUIRED_COLUMNS"
  by (simp add: missing_cols_def REQUIRED_COLUMNS_def ustr_def ex_plain_df_def)

lemma covers_required_ex_plain:
  "\<not> covers_required nfkd_latin [CStr (ustr ''A''), CStr (ustr ''B'')]"
  "\<not> covers_required nfkd_latin [CInt 1, CNaN]"
  by (simp_all add: covers_required_def REQUIRED_COLUMNS_def ncn_ascii ncn_cells)
    (simp_all add: ustr_def)

lemma detect_header_row_ex_plain: "detect_header_row nfkd_latin ex_plain_raw 50 = None"
  by (simp add: detect_header_row_def ex_plain_raw_def covers_required_ex_plain)

lemma detect_header_row_ex_dup: "detect_header_row nfkd_latin ex_dup_raw 50 = None"
  by (simp add: detect_header_row_def ex_dup_raw_def covers_required_def REQUIRED_COLUMNS_def
      normalize_column_name_def ustr_def nfkd_latin_def decomp_latin_def
      encode_ascii_ignore_def py_upper_def upper_char_def py_strip_def strip_where_def
      is_space_def is_upper_alnum_def)

text \<open>
  Claim C6, as amended.  For a spreadsheet that can be read, whose first-row headers
  normalise without collision and do not cover the ten required columns, the loader reads
  the file again with \<open>header=None\<close>; \<open>detect_header_row\<close> returns the smallest index
  among the first \<open>min(50, row count)\<close> rows whose normalised cells cover the required
  columns, and \<open>None\<close> when there is none; and when it returns \<open>None\<close>, \<open>load_excel\<close>
  fails after these two reads with the missing-columns error listing the columns missing
  from the first read.
\<close>

theorem load_excel_header_retry:
  assumes "read_excel (Some 0) = Inr df0" and "normalize_columns nfkd df0 = Inr df"
    and "missing_cols df \<noteq> []" and "read_excel None = Inr df_raw"
  shows "take 2 (fst (load_excel nfkd read_excel)) = [Some 0, None] \<and>
    (case detect_header_row nfkd df_raw 50 of
       None \<Rightarrow>
         (\<forall>i < min 50 (length (df_rows df_raw)). \<not> covers_required nfkd (df_rows df_raw ! i)) \<and>
         load_excel nfkd read_excel = ([Some 0, None], Inl (MissingColumns (missing_cols df)))
     | Some h \<Rightarrow>
         h < min 50 (length (df_rows df_raw)) \<and> covers_required nfkd (df_rows df_raw ! h) \<and>
         (\<forall>j < h. \<not> covers_required nfkd (df_rows df_raw ! j)) \<and>
         fst (load_excel nfkd read_excel) = [Some 0, None, Some h])"
proof (cases "detect_header_row nfkd df_raw 50")
  case None
  then have "\<forall>i < min 50 (length (df_rows df_raw)). \<not> covers_required nfkd (df_rows df_raw ! i)"
    by (simp add: detect_header_row_None)
  moreover have "load_excel nfkd read_excel = ([Some 0, None], Inl (MissingColumns (missing_cols df)))"
    using assms None by (simp add: load_excel_def)
  ultimately show ?thesis using None by simp
next
  case (Some h)
  have "fst (load_excel nfkd read_excel) = [Some 0, None, Some h]"
    using assms Some by (simp add: load_excel_def split: sum.splits)
  then show ?thesis using Some detect_header_row_Some[OF Some] by simp
qed

theorem load_excel_header_retry_witness:
  "ex_read_plain (Some 0) = Inr ex_plain_df0 \<and>
   normalize_columns nfkd_latin ex_plain_df0 = Inr ex_plain_df \<and>
   missing_cols ex_plain_df \<noteq> [] \<and>
   ex_read_plain None = Inr ex_plain_raw \<and>
   detect_header_row nfkd_latin ex_plain_raw 50 = None \<and>
   load_excel nfkd_latin ex_read_plain = ([Some 0, None], Inl (MissingColumns REQUIRED_COLUMNS))"
proof -
  have h1: "ex_read_plain (Some 0) = Inr ex_plain_df0" by simp
  have h2: "normalize_columns nfkd_latin ex_plain_df0 = Inr ex_plain_df"
    by (rule normalize_columns_ex_plain)
  have h3: "missing_cols ex_plain_df \<noteq> []"
    by (simp add: missing_cols_ex_plain REQUIRED_COLUMNS_def)
  have h4: "ex_read_plain None = Inr ex_plain_raw" by simp
  show ?thesis
    using h1 h2 h3 h4 load_excel_header_retry [OF h1 h2 h3 h4] detect_header_row_ex_plain
      missing_cols_ex_plain
    by simp
qed

text \<open>
  Claim C6 as stated fails on first-row headers that collide: they do not cover the
  required columns and no row of the sheet is a header row, yet \<open>load_excel\<close> makes the
  first read only and fails with the duplicate-columns error.
\<close>

theorem load_excel_duplicate_headers_no_retry:
  "ex_read_dup (Some 0) = Inr ex_dup_df \<and>
   \<not> covers_required nfkd_latin (df_columns ex_dup_df) \<and>
   ex_read_dup None = Inr ex_dup_raw \<and>
   detect_header_row nfkd_latin ex_dup_raw 50 = None \<and>
   load_excel nfkd_latin ex_read_dup =
     ([Some 0], Inl (DuplicateColumns [(ustr ''NOMBRE_IES'',
        [CStr (ustr ''NOMBRE IES''), CStr (ustr ''NOMBRE_IES'')])]))"
proof -
  have "\<not> covers_required nfkd_latin (df_columns ex_dup_df)"
    by (simp add: ex_dup_df_def covers_required_def REQUIRED_COLUMNS_def
      normalize_column_name_def ustr_def nfkd_latin_def decomp_latin_def
      encode_ascii_ignore_def py_upper_def upper_char_def py_strip_def strip_where_def
      is_space_def is_upper_alnum_def)
  moreover have "load_excel nfkd_latin ex_read_dup =
     ([Some 0], Inl (DuplicateColumns [(ustr ''NOMBRE_IES'',
        [CStr (ustr ''NOMBRE IES''), CStr (ustr ''NOMBRE_IES'')])]))"
    by (simp add: load_excel_def normalize_columns_ex_dup_df)
  ultimately show ?thesis using detect_header_row_ex_dup by simp
qed

text \<open>
  Claim C7.  With NFKD decomposing the letter O with acute accent (211) into \<open>O\<close> and the
  combining accent (769), \<open>normalize_column_name\<close> maps \<open>NIVEL FORMACION\<close> (accented) to
  \<open>NIVEL_FORMACION\<close> and \<open>CANTON\<close> (accented) to \<open>CANTON\<close>; and whenever two distinct
  headers of a dataframe normalise to the same name, \<open>normalize_columns\<close> raises the
  duplicate-columns error, which names that normalised header, instead of returning a
  dataframe.
\<close>

theorem normalize_columns_examples_and_duplicates:
  assumes "nfkd (ustr ''NIVEL FORMACI'' @ [211] @ ustr ''N'') =
             ustr ''NIVEL FORMACIO'' @ [769] @ ustr ''N''"
    and "nfkd (ustr ''CANT'' @ [211] @ ustr ''N'') = ustr ''CANTO'' @ [769] @ ustr ''N''"
  shows "normalize_column_name nfkd (CStr (ustr ''NIVEL FORMACI'' @ [211] @ ustr ''N'')) =
           ustr ''NIVEL_FORMACION'' \<and>
         normalize_column_name nfkd (CStr (ustr ''CANT'' @ [211] @ ustr ''N'')) = ustr ''CANTON'' \<and>
         (\<forall>df c1 c2. c1 \<in> set (df_columns df) \<and> c2 \<in> set (df_columns df) \<and> c1 \<noteq> c2 \<and>
            normalize_column_name nfkd c1 = normalize_column_name nfkd c2 \<longrightarrow>
            (\<exists>dupes. normalize_columns nfkd df = Inl (DuplicateColumns dupes) \<and>
                     normalize_column_name nfkd c1 \<in> fst ` set dupes))"
  using ncn_nivel[of nfkd, OF assms(1)] ncn_canton[of nfkd, OF assms(2)]
    normalize_columns_duplicate[of _ _ _ nfkd]
  by blast

theorem normalize_columns_examples_and_duplicates_witness:
  "nfkd_latin (ustr ''NIVEL FORMACI'' @ [211] @ ustr ''N'') =
     ustr ''NIVEL FORMACIO'' @ [769] @ ustr ''N'' \<and>
   nfkd_latin (ustr ''CANT'' @ [211] @ ustr ''N'') = ustr ''CANTO'' @ [769] @ ustr ''N'' \<and>
   normalize_column_name nfkd_latin (CStr (ustr ''NIVEL FORMACI'' @ [211] @ ustr ''N'')) =
     ustr ''NIVEL_FORMACION'' \<and>
   normalize_column_name nfkd_latin (CStr (ustr ''CANT'' @ [211] @ ustr ''N'')) = ustr ''CANTON'' \<and>
   (\<exists>dupes. normalize_columns nfkd_latin ex_dup_df = Inl (DuplicateColumns dupes) \<and>
            normalize_column_name nfkd_latin (CStr (ustr ''NOMBRE IES'')) \<in> fst ` set dupes)"
proof -
  have same: "normalize_column_name nfkd_latin (CStr (ustr ''NOMBRE IES'')) =
              normalize_column_name nfkd_latin (CStr (ustr ''NOMBRE_IES''))"
    by (simp add: normalize_column_name_def ustr_def nfkd_latin_def decomp_latin_def
      encode_ascii_ignore_def py_upper_def upper_char_def py_strip_def strip_where_def
      is_space_def is_upper_alnum_def)
  have diff: "CStr (ustr ''NOMBRE IES'') \<noteq> CStr (ustr ''NOMBRE_IES'')"
    by (simp add: ustr_def)
  have mem: "CStr (ustr ''NOMBRE IES'') \<in> set (df_columns ex_dup_df)"
    "CStr (ustr ''NOMBRE_IES'') \<in> set (df_columns ex_dup_df)"
    by (simp_all add: ex_dup_df_def)
  from normalize_columns_examples_and_duplicates [OF nfkd_latin_nivel nfkd_latin_canton]
  show ?thesis using nfkd_latin_nivel nfkd_latin_canton same diff mem by blast
qed

section \<open>Properties of the checksum guard and of the territory checks\<close>

lemma fetchone_single:
  assumes "filter (\<lambda>r. checksum_sha256 r = c) files = [r0]"
  shows "fetchone_by_checksum files c = Some (file_id r0, status r0)"
  using assms by (simp add: fetchone_by_checksum_def)

lemma fetchone_miss:
  assumes "filter (\<lambda>r. checksum_sha256 r = c) files = []"
  shows "fetchone_by_checksum files c = None"
  using assms by (simp add: fetchone_by_checksum_def)

lemma update_notes_mem:
  "r \<in> set files \<Longrightarrow> r\<lparr>file_notes := Some note\<rparr> \<in> set (update_notes note (file_id r) files)"
  by (induction files) (auto simp: update_notes_def)

text \<open>
  Claim C5, as amended.  For a lookup of a checksum that at most one run record of
  \<open>raw_ingest.files\<close> carries, \<open>should_skip_by_checksum\<close> returns \<open>True\<close> exactly when a
  prior run with that checksum has status \<open>success\<close>; it then returns that run's
  \<open>file_id\<close> and stamps the note on that run's record; and when no prior run with that
  checksum succeeded (none exists, or its status is something else) it returns
  \<open>(False, None)\<close> and leaves the table as it was.
\<close>

theorem should_skip_iff_prior_success:
  assumes "length (filter (\<lambda>r. checksum_sha256 r = c) files) \<le> 1"
  shows
    "(fst (fst (should_skip_by_checksum now_iso files c)) \<longleftrightarrow>
        (\<exists>r \<in> set files. checksum_sha256 r = c \<and> status r = ustr ''success'')) \<and>
     (\<forall>r \<in> set files. checksum_sha256 r = c \<and> status r = ustr ''success'' \<longrightarrow>
        fst (should_skip_by_checksum now_iso files c) = (True, Some (file_id r)) \<and>
        r\<lparr>file_notes := Some (ustr ''Duplicate checksum skipped at '' @ now_iso @ ustr ''Z'')\<rparr>
          \<in> set (snd (should_skip_by_checksum now_iso files c))) \<and>
     ((\<forall>r \<in> set files. checksum_sha256 r = c \<longrightarrow> status r \<noteq> ustr ''success'') \<longrightarrow>
        should_skip_by_checksum now_iso files c = ((False, None), files))"
proof (cases "filter (\<lambda>r. checksum_sha256 r = c) files")
  case Nil
  then have none: "\<forall>r \<in> set files. checksum_sha256 r \<noteq> c"
    by (simp add: filter_empty_conv)
  have "should_skip_by_checksum now_iso files c = ((False, None), files)"
    using fetchone_miss[OF Nil] by (simp add: should_skip_by_checksum_def)
  then show ?thesis using none by auto
next
  case (Cons r0 rest)
  with assms have rest: "rest = []" by simp
  have single: "filter (\<lambda>r. checksum_sha256 r = c) files = [r0]"
    using Cons rest by simp
  have "set (filter (\<lambda>r. checksum_sha256 r = c) files) = {r0}"
    unfolding single by simp
  then have members: "{r \<in> set files. checksum_sha256 r = c} = {r0}"
    by simp
  then have r0: "r0 \<in> set files" "checksum_sha256 r0 = c" by blast+
  have uniq: "r = r0" if "r \<in> set files" "checksum_sha256 r = c" for r
    using that members by blast
  have f: "fetchone_by_checksum files c = Some (file_id r0, status r0)"
    by (rule fetchone_single[OF single])
  show ?thesis
  proof (cases "status r0 = ustr ''success''")
    case True
    have res: "should_skip_by_checksum now_iso files c =
      ((True, Some (file_id r0)),
       update_notes (ustr ''Duplicate checksum skipped at '' @ now_iso @ ustr ''Z'') (file_id r0) files)"
      using f True by (simp add: should_skip_by_checksum_def Let_def)
    have mem: "r0\<lparr>file_notes := Some (ustr ''Duplicate checksum skipped at '' @ now_iso @ ustr ''Z'')\<rparr>
      \<in> set (snd (should_skip_by_checksum now_iso files c))"
      unfolding res using update_notes_mem[OF r0(1)] by simp
    show ?thesis
    proof (intro conjI ballI impI)
      show "fst (fst (should_skip_by_checksum now_iso files c)) =
        (\<exists>r\<in>set files. checksum_sha256 r = c \<and> status r = ustr ''success'')"
        using res r0 True by auto
    next
      fix r assume "r \<in> set files" "checksum_sha256 r = c \<and> status r = ustr ''success''"
      then have "r = r0" using uniq by blast
      then show "fst (should_skip_by_checksum now_iso files c) = (True, Some (file_id r))"
        using res by simp
      from \<open>r = r0\<close> mem
      show "r\<lparr>file_notes := Some (ustr ''Duplicate checksum skipped at '' @ now_iso @ ustr ''Z'')\<rparr>
          \<in> set (snd (should_skip_by_checksum now_iso files c))" by simp
    next
      assume "\<forall>r\<in>set files. checksum_sha256 r = c \<longrightarrow> status r \<noteq> ustr ''success''"
      with r0 True show "should_skip_by_checksum now_iso files c = ((False, None), files)" by blast
    qed
  next
    case False
    have res: "should_skip_by_checksum now_iso files c = ((False, None), files)"
      using f False by (simp add: should_skip_by_checksum_def)
    have "\<not> (\<exists>r \<in> set files. checksum_sha256 r = c \<and> status r = ustr ''success'')"
      using uniq False by blast
    then show ?thesis using res by auto
  qed
qed

theorem should_skip_iff_prior_success_witness:
  "length (filter (\<lambda>r. checksum_sha256 r = ustr ''bb'') ex_files) = 1 \<and>
   should_skip_by_checksum (ustr ''T'') ex_files (ustr ''bb'') =
     ((True, Some (ustr ''file-1'')),
      [ex_files ! 0,
       (ex_files ! 1)\<lparr>file_notes := Some (ustr ''Duplicate checksum skipped at TZ'')\<rparr>]) \<and>
   should_skip_by_checksum (ustr ''T'') ex_files (ustr ''aa'') = ((False, None), ex_files) \<and>
   should_skip_by_checksum (ustr ''T'') ex_files (ustr ''cc'') = ((False, None), ex_files)"
proof -
  have l: "length (filter (\<lambda>r. checksum_sha256 r = ustr ''bb'') ex_files) = 1"
    by (simp add: ex_files_def ustr_def)
  have h: "length (filter (\<lambda>r. checksum_sha256 r = ustr ''aa'') ex_files) \<le> 1"
    "length (filter (\<lambda>r. checksum_sha256 r = ustr ''bb'') ex_files) \<le> 1"
    "length (filter (\<lambda>r. checksum_sha256 r = ustr ''cc'') ex_files) \<le> 1"
    by (simp_all add: ex_files_def ustr_def)
  have m: "ex_files ! 1 \<in> set ex_files" "checksum_sha256 (ex_files ! 1) = ustr ''bb''"
    "status (ex_files ! 1) = ustr ''success''" "file_id (ex_files ! 1) = ustr ''file-1''"
    by (simp_all add: ex_files_def)
  have u: "snd (should_skip_by_checksum (ustr ''T'') ex_files (ustr ''bb'')) =
      [ex_files ! 0,
       (ex_files ! 1)\<lparr>file_notes := Some (ustr ''Duplicate checksum skipped at TZ'')\<rparr>]"
    by (simp add: should_skip_by_checksum_def fetchone_by_checksum_def update_notes_def
        ex_files_def ustr_def)
  have b: "fst (should_skip_by_checksum (ustr ''T'') ex_files (ustr ''bb'')) =
      (True, Some (ustr ''file-1''))"
    using should_skip_iff_prior_success [OF h(2), of "ustr ''T''"] m by metis
  have n: "\<forall>r \<in> set ex_files. checksum_sha256 r = ustr ''aa'' \<longrightarrow> status r \<noteq> ustr ''success''"
    "\<forall>r \<in> set ex_files. checksum_sha256 r = ustr ''cc'' \<longrightarrow> status r \<noteq> ustr ''success''"
    by (simp_all add: ex_files_def ustr_def)
  have e: "should_skip_by_checksum (ustr ''T'') ex_files (ustr ''bb'') =
     ((True, Some (ustr ''file-1'')),
      [ex_files ! 0,
       (ex_files ! 1)\<lparr>file_notes := Some (ustr ''Duplicate checksum skipped at TZ'')\<rparr>])"
    using b u by (simp add: prod_eq_iff)
  show ?thesis
    using l e n should_skip_iff_prior_success [OF h(1), of "ustr ''T''"]
      should_skip_iff_prior_success [OF h(3), of "ustr ''T''"]
    by blast
qed

text \<open>
  Claim C5 as stated fails on a table that holds two run records with the same
  checksum, a failed one followed by a successful one, as \<open>run_pipeline\<close> leaves it
  after a failed run and a successful retry of the same file: a prior run with that
  checksum has status \<open>success\<close>, yet the lookup reads the failed record, returns
  \<open>(False, None)\<close> and writes nothing.
\<close>

theorem should_skip_duplicate_checksum_proceeds:
  "ex_files_retried ! 1 \<in> set ex_files_retried \<and>
   checksum_sha256 (ex_files_retried ! 1) = ustr ''aa'' \<and>
   status (ex_files_retried ! 1) = ustr ''success'' \<and>
   should_skip_by_checksum (ustr ''T'') ex_files_retried (ustr ''aa'') =
     ((False, None), ex_files_retried)"
  by (simp add: should_skip_by_checksum_def fetchone_by_checksum_def ex_files_retried_def
      ustr_def)

lemma set_iterrows: "(i, r) \<in> set (iterrows df) \<longleftrightarrow> i < length df \<and> r = df ! i"
proof
  assume "(i, r) \<in> set (iterrows df)"
  then obtain n where "[0..<length df] ! n = i" "df ! n = r" "n < length df"
    unfolding iterrows_def in_set_zip by auto
  then show "i < length df \<and> r = df ! i" by simp
next
  assume a: "i < length df \<and> r = df ! i"
  then have "[0..<length df] ! i = i \<and> df ! i = r \<and> i < length [0..<length df] \<and> i < length df"
    by simp
  then show "(i, r) \<in> set (iterrows df)"
    unfolding iterrows_def in_set_zip by (intro exI[of _ i]) simp
qed

lemma rows_issued_missing:
  "rows_issued ''missing_territory_norm'' (run_territory_checks vp df) = map fst (invalid_geo df)"
  by (simp add: rows_issued_def run_territory_checks_def Let_def comp_def case_prod_unfold)

lemma rows_issued_pair:
  "rows_issued ''invalid_territory_pair'' (run_territory_checks vp df) =
     (if vp \<noteq> {} then map fst (invalid_pairs vp df) else [])"
  by (simp add: rows_issued_def run_territory_checks_def Let_def comp_def case_prod_unfold)

lemma mem_invalid_geo:
  "i \<in> fst ` set (invalid_geo df) \<longleftrightarrow> i < length df \<and> invalid_geo_mask (df ! i)"
proof -
  have "i \<in> fst ` set (invalid_geo df) \<longleftrightarrow> (\<exists>r. (i, r) \<in> set (invalid_geo df))"
    by force
  also have "\<dots> \<longleftrightarrow> (\<exists>r. (i, r) \<in> set (iterrows df) \<and> invalid_geo_mask r)"
    by (simp add: invalid_geo_def)
  also have "\<dots> \<longleftrightarrow> i < length df \<and> invalid_geo_mask (df ! i)"
    by (simp add: set_iterrows)
  finally show ?thesis .
qed

lemma mem_invalid_pairs:
  "i \<in> fst ` set (invalid_pairs vp df) \<longleftrightarrow>
     i < length df \<and> invalid_pair_mask vp (df ! i) \<and> \<not> invalid_geo_mask (df ! i)"
proof -
  have "i \<in> fst ` set (invalid_pairs vp df) \<longleftrightarrow> (\<exists>r. (i, r) \<in> set (invalid_pairs vp df))"
    by force
  also have "\<dots> \<longleftrightarrow> (\<exists>r. (i, r) \<in> set (iterrows df) \<and> invalid_pair_mask vp r \<and>
                          \<not> invalid_geo_mask r)"
    by (simp add: invalid_pairs_def)
  also have "\<dots> \<longleftrightarrow> i < length df \<and> invalid_pair_mask vp (df ! i) \<and> \<not> invalid_geo_mask (df ! i)"
    by (simp add: set_iterrows)
  finally show ?thesis .
qed

lemma not_invalid_geo_mask:
  "\<not> invalid_geo_mask r \<longleftrightarrow>
     (\<exists>p c. provincia_norm r = Some p \<and> p \<noteq> [] \<and> canton_norm r = Some c \<and> c \<noteq> [])"
  by (cases "provincia_norm r"; cases "canton_norm r") (simp_all add: invalid_geo_mask_def)

text \<open>
  Claim C8.  Every row for which an \<open>invalid_territory_pair\<close> issue is raised has a
  non-null, non-empty \<open>provincia_norm\<close> and \<open>canton_norm\<close>, and no
  \<open>missing_territory_norm\<close> issue is raised for it; the two metrics count exactly the
  rows issued by the two checks, so no row is counted by both; and the
  \<open>missing_territory_norm\<close> check flags exactly the rows with a null or empty
  province or canton.
\<close>

theorem territory_checks_mutually_exclusive:
  "(\<forall>i \<in> set (rows_issued ''invalid_territory_pair'' (run_territory_checks vp df)).
      i < length df \<and>
      (\<exists>p c. provincia_norm (df ! i) = Some p \<and> p \<noteq> [] \<and>
             canton_norm (df ! i) = Some c \<and> c \<noteq> []) \<and>
      i \<notin> set (rows_issued ''missing_territory_norm'' (run_territory_checks vp df))) \<and>
   invalid_territory (run_territory_checks vp df) =
     length (rows_issued ''missing_territory_norm'' (run_territory_checks vp df)) \<and>
   invalid_territory_pair (run_territory_checks vp df) =
     length (rows_issued ''invalid_territory_pair'' (run_territory_checks vp df)) \<and>
   set (rows_issued ''missing_territory_norm'' (run_territory_checks vp df)) =
     {i. i < length df \<and> invalid_geo_mask (df ! i)}"
proof (intro conjI ballI)
  fix i assume "i \<in> set (rows_issued ''invalid_territory_pair'' (run_territory_checks vp df))"
  then have "i \<in> fst ` set (invalid_pairs vp df)"
    by (simp add: rows_issued_pair split: if_splits)
  then have i: "i < length df" "\<not> invalid_geo_mask (df ! i)"
    by (simp_all add: mem_invalid_pairs)
  show "i < length df" by (rule i(1))
  show "\<exists>p c. provincia_norm (df ! i) = Some p \<and> p \<noteq> [] \<and> canton_norm (df ! i) = Some c \<and> c \<noteq> []"
    using i(2) by (simp add: not_invalid_geo_mask)
  show "i \<notin> set (rows_issued ''missing_territory_norm'' (run_territory_checks vp df))"
    using i(2) by (simp add: rows_issued_missing mem_invalid_geo)
next
  show "invalid_territory (run_territory_checks vp df) =
     length (rows_issued ''missing_territory_norm'' (run_territory_checks vp df))"
    by (simp add: rows_issued_missing) (simp add: run_territory_checks_def Let_def)
next
  show "invalid_territory_pair (run_territory_checks vp df) =
     length (rows_issued ''invalid_territory_pair'' (run_territory_checks vp df))"
    by (simp add: rows_issued_pair) (simp add: run_territory_checks_def Let_def)
next
  show "set (rows_issued ''missing_territory_norm'' (run_territory_checks vp df)) =
     {i. i < length df \<and> invalid_geo_mask (df ! i)}"
    using mem_invalid_geo[of _ df] by (simp add: rows_issued_missing set_eq_iff)
qed

theorem territory_checks_mutually_exclusive_witness:
  "rows_issued ''missing_territory_norm'' (run_territory_checks ex_valid_pairs ex_geo_batch) = [0] \<and>
   rows_issued ''invalid_territory_pair'' (run_territory_checks ex_valid_pairs ex_geo_batch) = [2] \<and>
   invalid_territory (run_territory_checks ex_valid_pairs ex_geo_batch) = 1 \<and>
   invalid_territory_pair (run_territory_checks ex_valid_pairs ex_geo_batch) = 1 \<and>
   2 \<notin> set (rows_issued ''missing_territory_norm''
               (run_territory_checks ex_valid_pairs ex_geo_batch))"
proof -
  have a: "rows_issued ''missing_territory_norm''
             (run_territory_checks ex_valid_pairs ex_geo_batch) = [0]"
    by (simp add: rows_issued_missing invalid_geo_def iterrows_def ex_geo_batch_def
        ex_geo_row_def invalid_geo_mask_def ustr_def upt_rec)
  have b: "rows_issued ''invalid_territory_pair''
             (run_territory_checks ex_valid_pairs ex_geo_batch) = [2]"
    by (simp add: rows_issued_pair invalid_pairs_def iterrows_def ex_geo_batch_def
        ex_geo_row_def invalid_geo_mask_def invalid_pair_mask_def ex_valid_pairs_def ustr_def
        upt_rec)
  note t = territory_checks_mutually_exclusive [of ex_valid_pairs ex_geo_batch]
  have m: "invalid_territory (run_territory_checks ex_valid_pairs ex_geo_batch) =
      length (rows_issued ''missing_territory_norm''
                (run_territory_checks ex_valid_pairs ex_geo_batch))"
    "invalid_territory_pair (run_territory_checks ex_valid_pairs ex_geo_batch) =
      length (rows_issued ''invalid_territory_pair''
                (run_territory_checks ex_valid_pairs ex_geo_batch))"
    using t by blast+
  have x: "\<forall>i \<in> set (rows_issued ''invalid_territory_pair''
                   (run_territory_checks ex_valid_pairs ex_geo_batch)).
      i \<notin> set (rows_issued ''missing_territory_norm''
                  (run_territory_checks ex_valid_pairs ex_geo_batch))"
    using t by blast
  show ?thesis using a b m x by simp
qed

section \<open>Properties of the artifact upload\<close>

lemma get_supabase_client_none:
  assumes "\<not> sw_installed w \<or> sw_env w (ustr ''SUPABASE_URL'') = None \<or>
           sw_env w (ustr ''SUPABASE_SERVICE_ROLE_KEY'') = None"
  shows "get_supabase_client w = ([], Inr False)"
  using assms by (auto simp: get_supabase_client_def Let_def)

text \<open>
  Claim C10.  When the \<open>supabase\<close> package is not installed, or \<open>SUPABASE_URL\<close> or
  \<open>SUPABASE_SERVICE_ROLE_KEY\<close> is unset, \<open>upload_artifacts\<close> returns exactly
  \<open>{"status": "skipped", "paths": {}}\<close> and makes no call on the client library (no
  client creation, bucket listing, bucket creation or upload), whatever the file id,
  the source path and the report directory are.
\<close>

theorem upload_artifacts_skipped:
  assumes "\<not> sw_installed w \<or> sw_env w (ustr ''SUPABASE_URL'') = None \<or>
           sw_env w (ustr ''SUPABASE_SERVICE_ROLE_KEY'') = None"
  shows "upload_artifacts w fid source_path report_dir =
           ([], Inr \<lparr>up_status = ustr ''skipped'', up_paths = []\<rparr>)"
  using get_supabase_client_none[OF assms] by (simp add: upload_artifacts_def)

theorem upload_artifacts_skipped_witness:
  "sw_env (ex_world False) (ustr ''SUPABASE_SERVICE_ROLE_KEY'') = None \<and>
   upload_artifacts (ex_world False) (ustr ''f1'') (ustr ''in.xlsx'') (ustr ''reports'') =
     ([], Inr \<lparr>up_status = ustr ''skipped'', up_paths = []\<rparr>)"
proof -
  have k: "sw_env (ex_world False) (ustr ''SUPABASE_SERVICE_ROLE_KEY'') = None"
    by (simp add: ex_world_def ustr_def)
  then have h: "\<not> sw_installed (ex_world False) \<or>
      sw_env (ex_world False) (ustr ''SUPABASE_URL'') = None \<or>
      sw_env (ex_world False) (ustr ''SUPABASE_SERVICE_ROLE_KEY'') = None"
    by blast
  show ?thesis
    using k upload_artifacts_skipped [OF h, of "ustr ''f1''" "ustr ''in.xlsx''" "ustr ''reports''"]
    by simp
qed

text \<open>With both variables set the client is created and the files on disk are uploaded.\<close>

lemma upload_artifacts_configured_example:
  "map (\<lambda>op. case op of OpUpload b r c \<Rightarrow> r | _ \<Rightarrow> [])
     (fst (upload_artifacts (ex_world True) (ustr ''f1'') (ustr ''in.xlsx'') (ustr ''reports''))) =
   [[], [], ustr ''sources/f1/in.xlsx'', ustr ''reports/f1/data_quality.json'']"
  by (simp add: upload_artifacts_def get_supabase_client_def ensure_bucket_def
      upload_candidates_def upload_file_def getenv_default_def bool_env_def ex_world_def
      ends_with_slash_def rstrip_slash_def py_lower_def lower_char_def ustr_def Let_def)

section \<open>Properties of the row hash\<close>

lemma is_ascii_simps:
  "is_ascii []" "is_ascii (c # s) \<longleftrightarrow> c < 128 \<and> is_ascii s"
  "is_ascii (s @ t) \<longleftrightarrow> is_ascii s \<and> is_ascii t"
  by (auto simp: is_ascii_def)

lemma hex_digit_ascii: "d < 16 \<Longrightarrow> hex_digit d < 128"
  by (simp add: hex_digit_def)

lemma is_ascii_hex4: "is_ascii (hex4 n)"
  by (simp add: hex4_def is_ascii_simps hex_digit_ascii)

lemma is_ascii_json_escape_char: "is_ascii (json_escape_char c)"
  by (simp add: json_escape_char_def is_ascii_simps is_ascii_hex4 Let_def)

lemma is_ascii_concat_escape: "is_ascii (concat (map json_escape_char s))"
  by (induction s) (simp_all add: is_ascii_simps is_ascii_json_escape_char)

lemma is_ascii_json_string: "is_ascii (json_string s)"
  by (simp add: json_string_def is_ascii_simps is_ascii_concat_escape)

lemma is_ascii_digits_of: "is_ascii (digits_of n)"
proof (induction n rule: digits_of.induct)
  case (1 n)
  show ?case
  proof (cases "n < 10")
    case True
    then show ?thesis by (simp add: is_ascii_simps)
  next
    case False
    have "n mod 10 < 10" by simp
    then have "48 + n mod 10 < 128" by linarith
    then show ?thesis using False 1 by (subst digits_of.simps) (simp add: is_ascii_simps)
  qed
qed

lemma is_ascii_ustr: "is_ascii (ustr s) \<longleftrightarrow> (\<forall>c \<in> set s. of_char c < (128::nat))"
  by (simp add: is_ascii_def ustr_def)

lemma is_ascii_json_value: "is_ascii (json_value v)"
proof (cases v)
  case (CStr s)
  then show ?thesis by (simp add: is_ascii_json_string)
next
  case (CInt i)
  then show ?thesis by (simp add: is_ascii_simps is_ascii_digits_of del: digits_of.simps)
next
  case CNaN
  then show ?thesis by (simp add: ustr_def is_ascii_simps)
next
  case CNone
  then show ?thesis by (simp add: ustr_def is_ascii_simps)
qed

lemma utf8_encode_ascii: "is_ascii s \<Longrightarrow> utf8_encode s = Some s"
  by (induction s) (simp_all add: is_ascii_simps utf8_char_def)

lemma json_dumps_sorted_content:
  \<open>json_dumps_sorted [(ustr ''natural_key'', nk), (ustr ''estado_norm'', st)] =
     ustr ''{"estado_norm": '' @ json_value st @ ustr '', "natural_key": '' @ json_value nk @
     ustr ''}''\<close>
proof -
  have le: "ustr ''estado_norm'' \<le> ustr ''natural_key''"
    and nle: "\<not> ustr ''natural_key'' \<le> ustr ''estado_norm''"
    by (simp_all add: ustr_def)
  have sorted: "sort_key fst [(ustr ''natural_key'', nk), (ustr ''estado_norm'', st)] =
      [(ustr ''estado_norm'', st), (ustr ''natural_key'', nk)]"
    using le nle by simp
  have k1: \<open>json_string (ustr ''estado_norm'') = ustr ''"estado_norm"''\<close>
    and k2: \<open>json_string (ustr ''natural_key'') = ustr ''"natural_key"''\<close>
    by (simp_all add: json_string_def json_escape_char_def ustr_def)
  show ?thesis
    unfolding json_dumps_sorted_def sorted
    by (simp add: k1 k2) (simp add: ustr_def)
qed

lemma is_ascii_dump:
  "is_ascii (json_dumps_sorted [(ustr ''natural_key'', nk), (ustr ''estado_norm'', st)])"
  unfolding json_dumps_sorted_content
  by (simp add: is_ascii_simps is_ascii_json_value) (simp add: ustr_def is_ascii_simps)

lemma generate_row_hash_value:
  assumes "row (ustr ''natural_key'') = Some nk"
  shows \<open>generate_row_hash sha row =
     Inr (sha (ustr ''{"estado_norm": '' @
               json_value (py_or (row_get row (ustr ''estado_norm'')) (CStr [])) @
               ustr '', "natural_key": '' @ json_value nk @ ustr ''}''))\<close>
  using assms utf8_encode_ascii[OF is_ascii_dump, of nk "py_or (row_get row (ustr ''estado_norm'')) (CStr [])"]
  by (simp add: generate_row_hash_def Let_def json_dumps_sorted_content)

lemma generate_row_hash_cong:
  assumes "row' (ustr ''natural_key'') = row (ustr ''natural_key'')"
    and "row' (ustr ''estado_norm'') = row (ustr ''estado_norm'')"
  shows "generate_row_hash sha row' = generate_row_hash sha row"
proof -
  have "row_get row' (ustr ''estado_norm'') = row_get row (ustr ''estado_norm'')"
    unfolding row_get_def assms(2) ..
  then show ?thesis unfolding generate_row_hash_def assms(1) by (simp cong: option.case_cong)
qed

text \<open>
  What \<open>generate_row_hash\<close> computes.  For a row that has a \<open>natural_key\<close> it returns
  the SHA-256 hex digest of the bytes of the JSON object with exactly the two keys
  \<open>estado_norm\<close> and \<open>natural_key\<close>, in sorted order, where the status is the row's
  \<open>estado_norm\<close> if it is a string, the empty string if it is absent or \<open>None\<close>, and
  the token \<open>NaN\<close> if it is the float \<open>NaN\<close>; two rows with the same \<open>natural_key\<close>
  and the same \<open>estado_norm\<close> have the same hash whatever their other fields are.
\<close>

lemma generate_row_hash_content:
  assumes "row (ustr ''natural_key'') = Some nk"
  shows \<open>generate_row_hash sha row =
       Inr (sha (ustr ''{"estado_norm": '' @
                 json_value (py_or (row_get row (ustr ''estado_norm'')) (CStr [])) @
                 ustr '', "natural_key": '' @ json_value nk @ ustr ''}'')) \<and>
     (\<forall>s. row (ustr ''estado_norm'') = Some (CStr s) \<longrightarrow>
          py_or (row_get row (ustr ''estado_norm'')) (CStr []) = CStr s) \<and>
     (row (ustr ''estado_norm'') = None \<or> row (ustr ''estado_norm'') = Some CNone \<longrightarrow>
          py_or (row_get row (ustr ''estado_norm'')) (CStr []) = CStr []) \<and>
     (row (ustr ''estado_norm'') = Some CNaN \<longrightarrow>
          py_or (row_get row (ustr ''estado_norm'')) (CStr []) = CNaN) \<and>
     (\<forall>row'. row' (ustr ''natural_key'') = row (ustr ''natural_key'') \<and>
             row' (ustr ''estado_norm'') = row (ustr ''estado_norm'') \<longrightarrow>
             generate_row_hash sha row' = generate_row_hash sha row)\<close>
proof (intro conjI allI impI)
  show \<open>generate_row_hash sha row =
       Inr (sha (ustr ''{"estado_norm": '' @
                 json_value (py_or (row_get row (ustr ''estado_norm'')) (CStr [])) @
                 ustr '', "natural_key": '' @ json_value nk @ ustr ''}''))\<close>
    by (rule generate_row_hash_value[where row=row and nk=nk, OF assms])
next
  fix s assume "row (ustr ''estado_norm'') = Some (CStr s)"
  then show "py_or (row_get row (ustr ''estado_norm'')) (CStr []) = CStr s"
    by (simp add: py_or_def row_get_def)
next
  assume "row (ustr ''estado_norm'') = None \<or> row (ustr ''estado_norm'') = Some CNone"
  then show "py_or (row_get row (ustr ''estado_norm'')) (CStr []) = CStr []"
    by (auto simp: py_or_def row_get_def)
next
  assume "row (ustr ''estado_norm'') = Some CNaN"
  then show "py_or (row_get row (ustr ''estado_norm'')) (CStr []) = CNaN"
    by (simp add: py_or_def row_get_def)
next
  fix row' assume "row' (ustr ''natural_key'') = row (ustr ''natural_key'') \<and>
             row' (ustr ''estado_norm'') = row (ustr ''estado_norm'')"
  then show "generate_row_hash sha row' = generate_row_hash sha row"
    using generate_row_hash_cong by blast
qed

lemma generate_row_hash_content_example:
  \<open>generate_row_hash toy_digest (ex_hash_row (ustr ''u'')) =
     Inr (toy_digest (ustr ''{"estado_norm": "activa", "natural_key": "a|b"}'')) \<and>
   generate_row_hash toy_digest (ex_hash_row (ustr ''v'')) =
     generate_row_hash toy_digest (ex_hash_row (ustr ''u''))\<close>
proof -
  have h: "ex_hash_row (ustr ''u'') (ustr ''natural_key'') = Some (CStr (ustr ''a|b''))"
    by (simp add: ex_hash_row_def ustr_def)
  have e: "ex_hash_row (ustr ''u'') (ustr ''estado_norm'') = Some (CStr (ustr ''activa''))"
    by (simp add: ex_hash_row_def ustr_def)
  have same: "ex_hash_row (ustr ''v'') (ustr ''natural_key'') =
                ex_hash_row (ustr ''u'') (ustr ''natural_key'') \<and>
              ex_hash_row (ustr ''v'') (ustr ''estado_norm'') =
                ex_hash_row (ustr ''u'') (ustr ''estado_norm'')"
    by (simp add: ex_hash_row_def ustr_def)
  have j: \<open>json_value (CStr (ustr ''activa'')) = ustr ''"activa"''\<close>
    \<open>json_value (CStr (ustr ''a|b'')) = ustr ''"a|b"''\<close>
    by (simp_all add: json_string_def json_escape_char_def ustr_def)
  note t = generate_row_hash_content [where row = "ex_hash_row (ustr ''u'')"
      and nk = "CStr (ustr ''a|b'')" and sha = toy_digest, OF h]
  have v: "generate_row_hash toy_digest (ex_hash_row (ustr ''v'')) =
           generate_row_hash toy_digest (ex_hash_row (ustr ''u''))"
    using t same by blast
  have st: "py_or (row_get (ex_hash_row (ustr ''u'')) (ustr ''estado_norm'')) (CStr []) =
            CStr (ustr ''activa'')"
    using t e by blast
  have \<open>generate_row_hash toy_digest (ex_hash_row (ustr ''u'')) =
     Inr (toy_digest (ustr ''{"estado_norm": "activa", "natural_key": "a|b"}''))\<close>
    using t unfolding st j by (simp add: ustr_def)
  then show ?thesis using v by simp
qed

text \<open>
  Claim C3.  The claim says that \<open>generate_row_hash\<close> hashes the natural key with the
  normalised status, the empty string when the status is missing.  The code does so when
  the missing status is \<open>None\<close>, but not when it is the float \<open>NaN\<close>: \<open>NaN\<close> is true
  in Python, \<open>row.get('estado_norm') or ''\<close> keeps it, and the digest is taken of
  the serialisation with the token \<open>NaN\<close>, which is not the serialisation with the empty
  string.  (\<open>safe_key_part\<close>, beside it, tests for \<open>NaN\<close> and returns the empty
  string.)
\<close>

theorem generate_row_hash_nan_status:
  \<open>generate_row_hash sha (ex_missing_status_row CNaN) =
     Inr (sha (ustr ''{"estado_norm": NaN, "natural_key": "a|b"}'')) \<and>
   generate_row_hash sha (ex_missing_status_row CNone) =
     Inr (sha (ustr ''{"estado_norm": "", "natural_key": "a|b"}'')) \<and>
   ustr ''{"estado_norm": NaN, "natural_key": "a|b"}'' \<noteq>
     ustr ''{"estado_norm": "", "natural_key": "a|b"}''\<close>
proof -
  have nk: "ex_missing_status_row v (ustr ''natural_key'') = Some (CStr (ustr ''a|b''))" for v
    by (simp add: ex_missing_status_row_def ustr_def)
  have st: "row_get (ex_missing_status_row v) (ustr ''estado_norm'') = v" for v
    by (simp add: ex_missing_status_row_def row_get_def)
  have j: \<open>json_string (ustr ''a|b'') = ustr ''"a|b"''\<close>
    \<open>json_string [] = ustr ''""''\<close>
    by (simp_all add: json_string_def json_escape_char_def ustr_def)
  have a: \<open>generate_row_hash sha (ex_missing_status_row CNaN) =
     Inr (sha (ustr ''{"estado_norm": NaN, "natural_key": "a|b"}''))\<close>
    unfolding generate_row_hash_value[where row = "ex_missing_status_row CNaN"
        and nk = "CStr (ustr ''a|b'')" and sha = sha, OF nk] st
    by (simp add: py_or_def j) (simp add: ustr_def)
  have b: \<open>generate_row_hash sha (ex_missing_status_row CNone) =
     Inr (sha (ustr ''{"estado_norm": "", "natural_key": "a|b"}''))\<close>
    unfolding generate_row_hash_value[where row = "ex_missing_status_row CNone"
        and nk = "CStr (ustr ''a|b'')" and sha = sha, OF nk] st
    by (simp add: py_or_def j) (simp add: ustr_def)
  have c: \<open>ustr ''{"estado_norm": NaN, "natural_key": "a|b"}'' \<noteq>
     ustr ''{"estado_norm": "", "natural_key": "a|b"}''\<close>
    by (simp add: ustr_def)
  show ?thesis using a b c by blast
qed

section \<open>Properties of geographic matching\<close>

lemma match_level_exact:
  "q \<in> set choices \<Longrightarrow> match_level ex q choices t = Some (q, 100)"
  by (simp add: match_level_def)

lemma match_level_fuzzy_accept:
  "q \<notin> set choices \<Longrightarrow> ex q choices = Some (b, s) \<Longrightarrow> t \<le> s \<Longrightarrow>
   match_level ex q choices t = Some (b, s)"
  by (simp add: match_level_def)

lemma match_level_fuzzy_reject:
  "q \<notin> set choices \<Longrightarrow> ex q choices = Some (b, s) \<Longrightarrow> s < t \<Longrightarrow>
   match_level ex q choices t = None"
  by (simp add: match_level_def)

lemma match_level_no_candidate:
  "q \<notin> set choices \<Longrightarrow> ex q choices = None \<Longrightarrow> match_level ex q choices t = None"
  by (simp add: match_level_def)

lemma match_territory_failed_prov:
  assumes "catalog_loaded gm"
    and "match_level ex (normalize_text nfkd pin) (provinces gm) t = None"
  shows "match_territory nfkd ex gm pin cin t =
    \<lparr>m_provincia = None, m_canton = None, score_prov = 0, score_canton = 0,
     geo_method = ''failed_prov''\<rparr>"
  using assms by (simp add: match_territory_def Let_def)

lemma match_territory_failed_canton:
  assumes "catalog_loaded gm"
    and "match_level ex (normalize_text nfkd pin) (provinces gm) t = Some (p, ps)"
    and "match_level ex (normalize_text nfkd cin) (valid_cantons gm p) t = None"
  shows "match_territory nfkd ex gm pin cin t =
    \<lparr>m_provincia = Some p, m_canton = None, score_prov = ps, score_canton = 0,
     geo_method = ''failed_canton''\<rparr>"
  using assms by (simp add: match_territory_def Let_def)

lemma match_territory_matched:
  assumes "catalog_loaded gm"
    and "match_level ex (normalize_text nfkd pin) (provinces gm) t = Some (p, ps)"
    and "match_level ex (normalize_text nfkd cin) (valid_cantons gm p) t = Some (c, cs)"
  shows "match_territory nfkd ex gm pin cin t =
    \<lparr>m_provincia = Some p, m_canton = Some c, score_prov = ps, score_canton = cs,
     geo_method = (if ps = 100 \<and> cs = 100 then ''exact'' else ''fuzzy'')\<rparr>"
  using assms by (simp add: match_territory_def Let_def)

lemma match_territory_prov_accepted:
  assumes "catalog_loaded gm"
    and "match_level ex (normalize_text nfkd pin) (provinces gm) t = Some (p, ps)"
  shows "m_provincia (match_territory nfkd ex gm pin cin t) = Some p \<and>
         score_prov (match_territory nfkd ex gm pin cin t) = ps \<and>
         geo_method (match_territory nfkd ex gm pin cin t) \<noteq> ''failed_prov''"
proof (cases "match_level ex (normalize_text nfkd cin) (valid_cantons gm p) t")
  case None
  show ?thesis unfolding match_territory_failed_canton[OF assms None] by simp
next
  case (Some a)
  obtain c cs where a: "a = (c, cs)" by (cases a)
  show ?thesis unfolding match_territory_matched[OF assms Some[unfolded a]] by simp
qed

lemma normalize_text_examples:
  "normalize_text nfkd_latin (CStr (ustr ''Santo Domingo TSA'')) = ustr ''santo domingo tsa''"
  "normalize_text nfkd_latin (CStr (ustr ''Santo Domingo TS'')) = ustr ''santo domingo ts''"
  "normalize_text nfkd_latin (CStr (ustr ''Santo Domingo Tsachilas'')) =
     ustr ''santo domingo tsachilas''"
  "normalize_text nfkd_latin (CStr (ustr ''Santo  Domingo'')) = ustr ''santo domingo''"
  "normalize_text nfkd_latin CNaN = []"
  by (simp_all add: ustr_def nfkd_latin_def decomp_latin_def encode_ascii_ignore_def
      py_lower_def lower_char_def py_strip_def strip_where_def is_space_def py_split_def)

lemma fuzz_ratio_examples:
  "fuzz_ratio (ustr ''santo domingo tsa'') (ustr ''santo domingo tsachilas'') = 85"
  "fuzz_ratio (ustr ''santo domingo ts'') (ustr ''santo domingo tsachilas'') = 3200 / 39"
  "fuzz_ratio [] (ustr ''santo domingo'') = 0"
  by (simp_all add: fuzz_ratio_def ustr_def)

lemma extract_first_best_examples:
  "extract_first_best (ustr ''santo domingo tsa'') [ustr ''santo domingo tsachilas''] =
     Some (ustr ''santo domingo tsachilas'', 85)"
  "extract_first_best (ustr ''santo domingo ts'') [ustr ''santo domingo tsachilas''] =
     Some (ustr ''santo domingo tsachilas'', 3200 / 39)"
  "extract_first_best [] [ustr ''santo domingo''] = Some (ustr ''santo domingo'', 0)"
  by (simp_all add: fuzz_ratio_examples)

text \<open>
  Claim C4, as amended.  With a catalog loaded and the default threshold 85: a province
  that is not an exact match and whose best fuzzy score is exactly 85 is accepted with
  that score; one whose best score is below 85 (so 84 or lower) is rejected with
  \<open>(None, None, 0, 0, 'failed_prov')\<close>; an input equal to a canonical province after
  normalisation is accepted with province score 100, and then the method is \<open>exact\<close>
  with scores 100/100 when the canton is in that province's canton list, \<open>fuzzy\<close> when
  the canton is only accepted by fuzzy matching with a score from 85 up to but not
  including 100, and \<open>failed_canton\<close> (province kept, canton \<open>None\<close>, canton score 0)
  when no canton reaches the threshold.
\<close>

theorem match_territory_threshold:
  assumes "catalog_loaded gm"
  shows
   "(normalize_text nfkd pin \<notin> set (provinces gm) \<and>
     ex (normalize_text nfkd pin) (provinces gm) = Some (p, 85) \<longrightarrow>
       m_provincia (match_territory nfkd ex gm pin cin 85) = Some p \<and>
       score_prov (match_territory nfkd ex gm pin cin 85) = 85 \<and>
       geo_method (match_territory nfkd ex gm pin cin 85) \<noteq> ''failed_prov'') \<and>
    (normalize_text nfkd pin \<notin> set (provinces gm) \<and>
     ex (normalize_text nfkd pin) (provinces gm) = Some (p, s) \<and> s < 85 \<longrightarrow>
       match_territory nfkd ex gm pin cin 85 =
         \<lparr>m_provincia = None, m_canton = None, score_prov = 0, score_canton = 0,
          geo_method = ''failed_prov''\<rparr>) \<and>
    (normalize_text nfkd pin \<in> set (provinces gm) \<longrightarrow>
       m_provincia (match_territory nfkd ex gm pin cin 85) = Some (normalize_text nfkd pin) \<and>
       score_prov (match_territory nfkd ex gm pin cin 85) = 100 \<and>
       (normalize_text nfkd cin \<in> set (valid_cantons gm (normalize_text nfkd pin)) \<longrightarrow>
          match_territory nfkd ex gm pin cin 85 =
            \<lparr>m_provincia = Some (normalize_text nfkd pin),
             m_canton = Some (normalize_text nfkd cin),
             score_prov = 100, score_canton = 100, geo_method = ''exact''\<rparr>) \<and>
       (normalize_text nfkd cin \<notin> set (valid_cantons gm (normalize_text nfkd pin)) \<and>
        ex (normalize_text nfkd cin) (valid_cantons gm (normalize_text nfkd pin)) = Some (c, cs) \<and>
        85 \<le> cs \<and> cs < 100 \<longrightarrow>
          match_territory nfkd ex gm pin cin 85 =
            \<lparr>m_provincia = Some (normalize_text nfkd pin), m_canton = Some c,
             score_prov = 100, score_canton = cs, geo_method = ''fuzzy''\<rparr>) \<and>
       (normalize_text nfkd cin \<notin> set (valid_cantons gm (normalize_text nfkd pin)) \<and>
        (ex (normalize_text nfkd cin) (valid_cantons gm (normalize_text nfkd pin)) = None \<or>
         (\<exists>c' s'. ex (normalize_text nfkd cin) (valid_cantons gm (normalize_text nfkd pin)) =
                     Some (c', s') \<and> s' < 85)) \<longrightarrow>
          match_territory nfkd ex gm pin cin 85 =
            \<lparr>m_provincia = Some (normalize_text nfkd pin), m_canton = None,
             score_prov = 100, score_canton = 0, geo_method = ''failed_canton''\<rparr>))"
proof (intro conjI impI)
  assume a: "normalize_text nfkd pin \<notin> set (provinces gm) \<and>
     ex (normalize_text nfkd pin) (provinces gm) = Some (p, 85)"
  then have m: "match_level ex (normalize_text nfkd pin) (provinces gm) 85 = Some (p, 85)"
    by (intro match_level_fuzzy_accept) simp_all
  note r = match_territory_prov_accepted[OF assms m, of cin]
  from r show "m_provincia (match_territory nfkd ex gm pin cin 85) = Some p" by blast
  from r show "score_prov (match_territory nfkd ex gm pin cin 85) = 85" by blast
  from r show "geo_method (match_territory nfkd ex gm pin cin 85) \<noteq> ''failed_prov''" by blast
next
  assume a: "normalize_text nfkd pin \<notin> set (provinces gm) \<and>
     ex (normalize_text nfkd pin) (provinces gm) = Some (p, s) \<and> s < 85"
  then have "match_level ex (normalize_text nfkd pin) (provinces gm) 85 = None"
    by (intro match_level_fuzzy_reject[of _ _ _ p s]) simp_all
  from match_territory_failed_prov[OF assms this]
  show "match_territory nfkd ex gm pin cin 85 =
         \<lparr>m_provincia = None, m_canton = None, score_prov = 0, score_canton = 0,
          geo_method = ''failed_prov''\<rparr>" .
next
  assume a: "normalize_text nfkd pin \<in> set (provinces gm)"
  then have m: "match_level ex (normalize_text nfkd pin) (provinces gm) 85 =
      Some (normalize_text nfkd pin, 100)"
    by (rule match_level_exact)
  note r = match_territory_prov_accepted[OF assms m, of cin]
  from r show "m_provincia (match_territory nfkd ex gm pin cin 85) = Some (normalize_text nfkd pin)"
    by blast
  from r show "score_prov (match_territory nfkd ex gm pin cin 85) = 100" by blast
  {
    assume "normalize_text nfkd cin \<in> set (valid_cantons gm (normalize_text nfkd pin))"
    then have "match_level ex (normalize_text nfkd cin)
        (valid_cantons gm (normalize_text nfkd pin)) 85 = Some (normalize_text nfkd cin, 100)"
      by (rule match_level_exact)
    from match_territory_matched[OF assms m this]
    show "match_territory nfkd ex gm pin cin 85 =
            \<lparr>m_provincia = Some (normalize_text nfkd pin),
             m_canton = Some (normalize_text nfkd cin),
             score_prov = 100, score_canton = 100, geo_method = ''exact''\<rparr>" by simp
  }
  {
    assume b: "normalize_text nfkd cin \<notin> set (valid_cantons gm (normalize_text nfkd pin)) \<and>
        ex (normalize_text nfkd cin) (valid_cantons gm (normalize_text nfkd pin)) = Some (c, cs) \<and>
        85 \<le> cs \<and> cs < 100"
    then have "match_level ex (normalize_text nfkd cin)
        (valid_cantons gm (normalize_text nfkd pin)) 85 = Some (c, cs)"
      by (intro match_level_fuzzy_accept) simp_all
    from match_territory_matched[OF assms m this] b
    show "match_territory nfkd ex gm pin cin 85 =
            \<lparr>m_provincia = Some (normalize_text nfkd pin), m_canton = Some c,
             score_prov = 100, score_canton = cs, geo_method = ''fuzzy''\<rparr>" by simp
  }
  {
    assume b: "normalize_text nfkd cin \<notin> set (valid_cantons gm (normalize_text nfkd pin)) \<and>
        (ex (normalize_text nfkd cin) (valid_cantons gm (normalize_text nfkd pin)) = None \<or>
         (\<exists>c' s'. ex (normalize_text nfkd cin) (valid_cantons gm (normalize_text nfkd pin)) =
                     Some (c', s') \<and> s' < 85))"
    then have "match_level ex (normalize_text nfkd cin)
        (valid_cantons gm (normalize_text nfkd pin)) 85 = None"
      using match_level_no_candidate[of "normalize_text nfkd cin"
          "valid_cantons gm (normalize_text nfkd pin)" ex 85]
        match_level_fuzzy_reject[of "normalize_text nfkd cin"
          "valid_cantons gm (normalize_text nfkd pin)" ex _ _ 85]
      by blast
    from match_territory_failed_canton[OF assms m this]
    show "match_territory nfkd ex gm pin cin 85 =
            \<lparr>m_provincia = Some (normalize_text nfkd pin), m_canton = None,
             score_prov = 100, score_canton = 0, geo_method = ''failed_canton''\<rparr>" .
  }
qed

theorem match_territory_threshold_witness:
  "catalog_loaded ex_matcher \<and>
   match_territory nfkd_latin extract_first_best ex_matcher
       (CStr (ustr ''Santo Domingo TSA'')) (CStr (ustr ''Santo  Domingo'')) 85 =
     \<lparr>m_provincia = Some (ustr ''santo domingo tsachilas''),
      m_canton = Some (ustr ''santo domingo''),
      score_prov = 85, score_canton = 100, geo_method = ''fuzzy''\<rparr> \<and>
   match_territory nfkd_latin extract_first_best ex_matcher
       (CStr (ustr ''Santo Domingo TS'')) (CStr (ustr ''Santo  Domingo'')) 85 =
     \<lparr>m_provincia = None, m_canton = None, score_prov = 0, score_canton = 0,
      geo_method = ''failed_prov''\<rparr> \<and>
   match_territory nfkd_latin extract_first_best ex_matcher
       (CStr (ustr ''Santo Domingo Tsachilas'')) (CStr (ustr ''Santo  Domingo'')) 85 =
     \<lparr>m_provincia = Some (ustr ''santo domingo tsachilas''),
      m_canton = Some (ustr ''santo domingo''),
      score_prov = 100, score_canton = 100, geo_method = ''exact''\<rparr>"
proof -
  have h: "catalog_loaded ex_matcher" by (simp add: ex_matcher_def)
  have provs: "provinces ex_matcher = [ustr ''santo domingo tsachilas'']"
    by (simp add: ex_matcher_def)
  have cantons: "valid_cantons ex_matcher (ustr ''santo domingo tsachilas'') =
      [ustr ''santo domingo'']"
    by (simp add: ex_matcher_def valid_cantons_def)
  have ne: "ustr ''santo domingo tsa'' \<noteq> ustr ''santo domingo tsachilas''"
    "ustr ''santo domingo ts'' \<noteq> ustr ''santo domingo tsachilas''"
    by (simp_all add: ustr_def)
  have lt: "(3200 / 39 :: real) < 85" by simp
  have a: "match_territory nfkd_latin extract_first_best ex_matcher
       (CStr (ustr ''Santo Domingo TS'')) (CStr (ustr ''Santo  Domingo'')) 85 =
     \<lparr>m_provincia = None, m_canton = None, score_prov = 0, score_canton = 0,
      geo_method = ''failed_prov''\<rparr>"
    using match_territory_threshold [OF h, of nfkd_latin "CStr (ustr ''Santo Domingo TS'')"
        extract_first_best "ustr ''santo domingo tsachilas''" "CStr (ustr ''Santo  Domingo'')"
        "3200 / 39"]
      lt ne
    by (simp add: normalize_text_examples fuzz_ratio_examples provs
        del: normalize_text.simps)
  have b: "match_territory nfkd_latin extract_first_best ex_matcher
       (CStr (ustr ''Santo Domingo Tsachilas'')) (CStr (ustr ''Santo  Domingo'')) 85 =
     \<lparr>m_provincia = Some (ustr ''santo domingo tsachilas''),
      m_canton = Some (ustr ''santo domingo''),
      score_prov = 100, score_canton = 100, geo_method = ''exact''\<rparr>"
    using match_territory_threshold [OF h, of nfkd_latin
        "CStr (ustr ''Santo Domingo Tsachilas'')" extract_first_best _
        "CStr (ustr ''Santo  Domingo'')"]
    by (simp add: normalize_text_examples provs cantons del: normalize_text.simps)
  have c: "match_territory nfkd_latin extract_first_best ex_matcher
       (CStr (ustr ''Santo Domingo TSA'')) (CStr (ustr ''Santo  Domingo'')) 85 =
     \<lparr>m_provincia = Some (ustr ''santo domingo tsachilas''),
      m_canton = Some (ustr ''santo domingo''),
      score_prov = 85, score_canton = 100, geo_method = ''fuzzy''\<rparr>"
    using ne
    by (simp add: match_territory_def match_level_def normalize_text_examples
        fuzz_ratio_examples provs cantons h del: normalize_text.simps)
  show ?thesis using h a b c by simp
qed

text \<open>
  Claim C4 as stated fails where it says that the method is \<open>fuzzy\<close> whenever the canton
  does not match exactly: with the province spelled canonically and the canton cell
  missing, no canton reaches the threshold and the method is \<open>failed_canton\<close>.
\<close>

theorem match_territory_exact_province_failed_canton:
  "normalize_text nfkd_latin (CStr (ustr ''Santo Domingo Tsachilas'')) \<in>
     set (provinces ex_matcher) \<and>
   normalize_text nfkd_latin CNaN \<notin>
     set (valid_cantons ex_matcher (ustr ''santo domingo tsachilas'')) \<and>
   match_territory nfkd_latin extract_first_best ex_matcher
       (CStr (ustr ''Santo Domingo Tsachilas'')) CNaN 85 =
     \<lparr>m_provincia = Some (ustr ''santo domingo tsachilas''), m_canton = None,
      score_prov = 100, score_canton = 0, geo_method = ''failed_canton''\<rparr> \<and>
   geo_method (match_territory nfkd_latin extract_first_best ex_matcher
       (CStr (ustr ''Santo Domingo Tsachilas'')) CNaN 85) \<noteq> ''fuzzy''"
proof -
  have provs: "provinces ex_matcher = [ustr ''santo domingo tsachilas'']"
    by (simp add: ex_matcher_def)
  have cantons: "valid_cantons ex_matcher (ustr ''santo domingo tsachilas'') =
      [ustr ''santo domingo'']"
    by (simp add: ex_matcher_def valid_cantons_def)
  have ne: "[] \<noteq> ustr ''santo domingo''" by (simp add: ustr_def)
  have r: "match_territory nfkd_latin extract_first_best ex_matcher
       (CStr (ustr ''Santo Domingo Tsachilas'')) CNaN 85 =
     \<lparr>m_provincia = Some (ustr ''santo domingo tsachilas''), m_canton = None,
      score_prov = 100, score_canton = 0, geo_method = ''failed_canton''\<rparr>"
    using ne
    by (simp add: match_territory_def match_level_def normalize_text_examples
        fuzz_ratio_examples provs cantons del: normalize_text.simps)
      (simp add: ex_matcher_def)
  show ?thesis using r ne by (simp add: normalize_text_examples provs cantons del: normalize_text.simps)
qed

end
